theory Spec2Isabelle
  imports Complex_Main "HOL-Library.Sublist" "HOL-Library.AList"
begin

section \<open>Python values, exceptions and objects\<close>

text \<open>
  The repository is Python glue code around third-party libraries (crewai, requests,
  bs4, trafilatura, scholarly).  The functions of the repository are embedded as HOL
  functions; every call into a library is a field of an environment record, so each
  theorem holds for every behaviour the libraries may show.

  A Python exception (a subclass of \<open>Exception\<close>) is modelled by its message, the
  value of \<open>str(e)\<close>.  A string is a list of characters, one element per Python
  character; the characters are the code points below 256.
\<close>

datatype exn = Exception (message: string)

text \<open>
  Dynamically typed data that reaches the code from a library (a parsed JSON document,
  a publication dictionary) is a \<open>pyval\<close>.  A dictionary is the list of its items in
  insertion order, each key once.
  Of a float the code only uses its type and whether it is zero.
\<close>

datatype pyval =
    PNone
  | PBool bool
  | PInt int
  | PFloat real
  | PStr string
  | PList "pyval list"
  | PDict "(string \<times> pyval) list"

type_synonym pydict = "(string \<times> pyval) list"

section \<open>agents/master\_agent.py: the crew\<close>

text \<open>
  The keyword arguments the repository passes to crewai's \<open>Agent\<close>, \<open>Task\<close> and
  \<open>Crew\<close> constructors, as records and a datatype.  A task's \<open>context\<close> is the list
  of the tasks whose output it receives.
\<close>

record 'llm agent =
  role :: string
  goal :: string
  backstory :: string
  tools :: "string list"
  llm :: 'llm
  verbose :: bool
  allow_delegation :: bool
  max_iter :: nat

datatype 'llm task =
  Task (description: string) (agent: "'llm agent") (expected_output: string)
       (task_context: "'llm task list")

datatype process = sequential | hierarchical

record 'llm crew =
  agents :: "'llm agent list"
  tasks :: "'llm task list"
  process :: process
  crew_verbose :: bool
  full_output :: bool

text \<open>The four task descriptions, character for character (lines 56--68, 75--93,
  101--112 and 120--153).  Only the first one interpolates the user's query.  Each is its
  heading line followed by its body.\<close>

definition stage1_body :: "string \<Rightarrow> string" where
  "stage1_body user_query =
     ''        \<newline>'' @
     ''        Research Question: '' @
     [CHR 0x22] @
     user_query @
     [CHR 0x22] @
     ''\<newline>'' @
     ''        \<newline>'' @
     ''        Objectives:\<newline>'' @
     ''        1. Identify 5-10 candidate respiratory drugs currently approved for common conditions\<newline>'' @
     ''        2. Search ClinicalTrials.gov for any trials in rare diseases\<newline>'' @
     ''        3. Get basic PubMed literature (10-15 papers)\<newline>'' @
     ''        4. List potential rare respiratory diseases for repurposing\<newline>'' @
     ''        \<newline>'' @
     ''        Deliverable: Initial candidate list with brief rationale for each drug\<newline>'' @
     ''        ''"

definition stage1_description :: "string \<Rightarrow> string" where
  "stage1_description user_query =
     ''\<newline>'' @
     ''        STAGE 1: INITIAL DISCOVERY (Target: 5-10 minutes)\<newline>'' @
     stage1_body user_query"

definition stage2_body :: string where
  "stage2_body =
     ''        \<newline>'' @
     ''        Based on Stage 1 findings, conduct deep analysis:\<newline>'' @
     ''        \<newline>'' @
     ''        For TOP 3 candidate drugs:\<newline>'' @
     ''        1. Scrape DrugBank for detailed mechanism of action\<newline>'' @
     ''        2. Search Google Scholar for highly-cited mechanistic studies\<newline>'' @
     ''        3. Find bioRxiv preprints on novel uses\<newline>'' @
     ''        4. Search Orphanet for target rare diseases\<newline>'' @
     ''        5. Analyze mechanistic overlap between approved indication and target rare disease\<newline>'' @
     ''        \<newline>'' @
     ''        For TOP 3 rare diseases:\<newline>'' @
     ''        1. Search GARD for pathophysiology\<newline>'' @
     ''        2. Find latest research on disease mechanisms\<newline>'' @
     ''        3. Identify molecular targets\<newline>'' @
     ''        \<newline>'' @
     ''        Deliverable: Detailed mechanism-based analysis explaining WHY repurposing could work\<newline>'' @
     ''        ''"

definition stage2_description :: string where
  "stage2_description =
     ''\<newline>'' @
     ''        STAGE 2: DEEP MECHANISM ANALYSIS (Target: 10-15 minutes)\<newline>'' @
     stage2_body"

definition stage3_body :: string where
  "stage3_body =
     ''        \<newline>'' @
     ''        For top opportunities from Stage 2:\<newline>'' @
     ''        1. Scrape competitor pipelines (Pfizer, Novartis, Roche, etc.)\<newline>'' @
     ''        2. Assess market size for rare diseases\<newline>'' @
     ''        3. Analyze competitive landscape\<newline>'' @
     ''        4. Evaluate commercial feasibility\<newline>'' @
     ''        5. Assess orphan drug designation potential\<newline>'' @
     ''        \<newline>'' @
     ''        Deliverable: Commercial viability assessment with competitive positioning\<newline>'' @
     ''        ''"

definition stage3_description :: string where
  "stage3_description =
     ''\<newline>'' @
     ''        STAGE 3: MARKET VALIDATION (Target: 5-10 minutes)\<newline>'' @
     stage3_body"

definition stage4_body :: string where
  "stage4_body =
     ''        \<newline>'' @
     ''        Integrate ALL findings from Stages 1-3 to create comprehensive report:\<newline>'' @
     ''        \<newline>'' @
     ''        STRUCTURE:\<newline>'' @
     ''        1. Executive Summary (3-5 key insights)\<newline>'' @
     ''        2. Top 3 Repurposing Opportunities (ranked by potential)\<newline>'' @
     ''           - Drug name & current use\<newline>'' @
     ''           - Target rare disease\<newline>'' @
     ''           - Mechanistic rationale (detailed)\<newline>'' @
     ''           - Clinical evidence\<newline>'' @
     ''           - Market potential\<newline>'' @
     ''           - Competitive landscape\<newline>'' @
     ''           - Risk assessment\<newline>'' @
     ''        3. Strategic Recommendations\<newline>'' @
     ''           - Next steps for clinical development\<newline>'' @
     ''           - Partnership opportunities\<newline>'' @
     ''           - Regulatory pathway\<newline>'' @
     ''           - Timeline estimates\<newline>'' @
     ''        4. Full Appendix\<newline>'' @
     ''           - All clinical trials found\<newline>'' @
     ''           - Complete literature citations\<newline>'' @
     ''           - Market data sources\<newline>'' @
     ''        \<newline>'' @
     ''        QUALITY STANDARDS:\<newline>'' @
     ''        - All claims must be evidence-based\<newline>'' @
     ''        - Cite specific NCT IDs, PMIDs, papers\<newline>'' @
     ''        - Explain mechanisms in detail\<newline>'' @
     ''        - Provide realistic market assessments\<newline>'' @
     ''        - Acknowledge limitations and risks\<newline>'' @
     ''        \<newline>'' @
     ''        Deliverable: Publication-ready research report (5000+ words)\<newline>'' @
     ''        ''"

definition stage4_description :: string where
  "stage4_description =
     ''\<newline>'' @
     ''        STAGE 4: SYNTHESIS & STRATEGIC RECOMMENDATIONS (Target: 5 minutes)\<newline>'' @
     stage4_body"

definition stage1_task :: "string \<Rightarrow> 'llm agent \<Rightarrow> 'llm task" where
  "stage1_task user_query master_agent =
     Task (stage1_description user_query) master_agent
       ''List of 5-10 candidate drugs with initial evidence for rare disease potential''
       []"

definition stage2_task :: "string \<Rightarrow> 'llm agent \<Rightarrow> 'llm agent \<Rightarrow> 'llm task" where
  "stage2_task user_query master_agent deep_research_agent =
     Task stage2_description deep_research_agent
       ''Mechanistic analysis showing molecular basis for repurposing opportunities''
       [stage1_task user_query master_agent]"

definition stage3_task ::
  "string \<Rightarrow> 'llm agent \<Rightarrow> 'llm agent \<Rightarrow> 'llm agent \<Rightarrow> bool \<Rightarrow> 'llm task" where
  "stage3_task user_query master_agent market_agent deep_research_agent skip_deep =
     Task stage3_description market_agent
       ''Market opportunity analysis with competitive intelligence''
       (if skip_deep then [stage1_task user_query master_agent]
        else [stage1_task user_query master_agent,
              stage2_task user_query master_agent deep_research_agent])"

definition stage4_task ::
  "string \<Rightarrow> 'llm agent \<Rightarrow> 'llm agent \<Rightarrow> 'llm agent \<Rightarrow> bool \<Rightarrow> 'llm task" where
  "stage4_task user_query master_agent market_agent deep_research_agent skip_deep =
     Task stage4_description master_agent
       ''Comprehensive strategic research report with detailed recommendations''
       (if skip_deep
        then [stage1_task user_query master_agent,
              stage3_task user_query master_agent market_agent deep_research_agent skip_deep]
        else [stage1_task user_query master_agent,
              stage2_task user_query master_agent deep_research_agent,
              stage3_task user_query master_agent market_agent deep_research_agent skip_deep])"

text \<open>
  Lines 160--182 of \<open>run_comprehensive_research_crew\<close>: the crew the function
  constructs before it calls \<open>kickoff\<close>.  The two \<open>if not skip_deep\<close> appends are
  the two conditionals.  The constructors \<open>Task\<close> and \<open>Crew\<close> are taken to build the
  object from their arguments; they are called before the function's \<open>try\<close>.
\<close>

definition research_crew ::
  "string \<Rightarrow> 'llm agent \<Rightarrow> 'llm agent \<Rightarrow> 'llm agent \<Rightarrow> 'llm agent \<Rightarrow> 'llm agent \<Rightarrow>
   'llm agent \<Rightarrow> bool \<Rightarrow> 'llm crew" where
  "research_crew user_query master_agent clinical_agent drug_agent literature_agent
       market_agent deep_research_agent skip_deep =
     (let agents_list =
            [master_agent, clinical_agent, drug_agent, literature_agent, market_agent]
            @ (if \<not> skip_deep then [deep_research_agent] else []);
          tasks_list =
            [stage1_task user_query master_agent]
            @ (if \<not> skip_deep
               then [stage2_task user_query master_agent deep_research_agent] else [])
            @ [stage3_task user_query master_agent market_agent deep_research_agent skip_deep]
            @ [stage4_task user_query master_agent market_agent deep_research_agent skip_deep]
      in \<lparr>agents = agents_list, tasks = tasks_list, process = sequential,
          crew_verbose = True, full_output = True\<rparr>)"

text \<open>
  Lines 184--195.  \<open>crew.kickoff()\<close> is crewai's: it raises or returns an object.
  The code only asks the object for its \<open>raw\<close> and \<open>output\<close> attributes and applies
  \<open>str\<close>, so an object is modelled by what \<open>str\<close> does on it (return a string or
  raise), and the result by its two optional attributes and its own \<open>str\<close>.
\<close>

datatype pyobject = Object (str_of: "exn + string")

record kickoff_result =
  raw_attr :: "pyobject option"
  output_attr :: "pyobject option"
  self :: pyobject

definition error_report :: "exn \<Rightarrow> string" where
  "error_report e =
     ''Error during research execution: '' @ message e
     @ ''\<newline>\<newline>Please try a more specific query.''"

text \<open>Sequencing of calls that may raise, and \<open>try: r except Exception as e: h e\<close>.\<close>

definition and_then :: "exn + 'a \<Rightarrow> ('a \<Rightarrow> exn + 'b) \<Rightarrow> exn + 'b" where
  "and_then r f = (case r of Inl e \<Rightarrow> Inl e | Inr x \<Rightarrow> f x)"

definition try_except :: "exn + 'a \<Rightarrow> (exn \<Rightarrow> exn + 'a) \<Rightarrow> exn + 'a" where
  "try_except r h = (case r of Inl e \<Rightarrow> h e | Inr x \<Rightarrow> Inr x)"

definition run_comprehensive_research_crew ::
  "('llm crew \<Rightarrow> exn + kickoff_result) \<Rightarrow> string \<Rightarrow> 'llm agent \<Rightarrow> 'llm agent \<Rightarrow> 'llm agent \<Rightarrow>
   'llm agent \<Rightarrow> 'llm agent \<Rightarrow> 'llm agent \<Rightarrow> 'llm \<Rightarrow> bool \<Rightarrow> exn + string" where
  "run_comprehensive_research_crew kickoff user_query master_agent clinical_agent drug_agent
       literature_agent market_agent deep_research_agent llm_arg skip_deep =
     (let crew = research_crew user_query master_agent clinical_agent drug_agent
                   literature_agent market_agent deep_research_agent skip_deep
      in try_except
           (and_then (kickoff crew) (\<lambda>result.
              case raw_attr result of
                Some r \<Rightarrow> str_of r
              | None \<Rightarrow>
                  (case output_attr result of
                     Some out \<Rightarrow> str_of out
                   | None \<Rightarrow> str_of (self result))))
           (\<lambda>e. Inr (error_report e)))"


section \<open>Python operations on dynamically typed values\<close>

text \<open>
  Each operation returns what Python returns or the exception Python raises.  Messages
  are CPython's.
\<close>

fun type_name :: "pyval \<Rightarrow> string" where
  "type_name PNone = ''NoneType''"
| "type_name (PBool _) = ''bool''"
| "type_name (PInt _) = ''int''"
| "type_name (PFloat _) = ''float''"
| "type_name (PStr _) = ''str''"
| "type_name (PList _) = ''list''"
| "type_name (PDict _) = ''dict''"

text \<open>Truth value testing: \<open>if x\<close>, \<open>x and y\<close>, \<open>x or y\<close>.\<close>

fun py_truthy :: "pyval \<Rightarrow> bool" where
  "py_truthy PNone = False"
| "py_truthy (PBool b) = b"
| "py_truthy (PInt n) = (n \<noteq> 0)"
| "py_truthy (PFloat x) = (x \<noteq> 0)"
| "py_truthy (PStr s) = (s \<noteq> [])"
| "py_truthy (PList xs) = (xs \<noteq> [])"
| "py_truthy (PDict d) = (d \<noteq> [])"

text \<open>\<open>len(x)\<close>.\<close>

fun py_len :: "pyval \<Rightarrow> exn + nat" where
  "py_len (PStr s) = Inr (length s)"
| "py_len (PList xs) = Inr (length xs)"
| "py_len (PDict d) = Inr (length d)"
| "py_len v = Inl (Exception (''object of type '' @ [CHR 0x27] @ type_name v @ [CHR 0x27]
                     @ '' has no len()''))"

text \<open>\<open>x[0]\<close>.  The keys of a \<open>pyval\<close> dictionary are strings, so the key \<open>0\<close> is
  never present.\<close>

fun py_first :: "pyval \<Rightarrow> exn + pyval" where
  "py_first (PList xs) =
     (case xs of [] \<Rightarrow> Inl (Exception ''list index out of range'') | x # _ \<Rightarrow> Inr x)"
| "py_first (PStr s) =
     (case s of [] \<Rightarrow> Inl (Exception ''string index out of range'') | c # _ \<Rightarrow> Inr (PStr [c]))"
| "py_first (PDict d) = Inl (Exception ''0'')"
| "py_first v = Inl (Exception ([CHR 0x27] @ type_name v @ [CHR 0x27]
                       @ '' object is not subscriptable''))"

text \<open>\<open>x.get(key, default)\<close>: only a dictionary has the method.\<close>

fun py_get :: "pyval \<Rightarrow> string \<Rightarrow> pyval \<Rightarrow> exn + pyval" where
  "py_get (PDict d) key dflt = Inr (case map_of d key of Some v \<Rightarrow> v | None \<Rightarrow> dflt)"
| "py_get v key dflt = Inl (Exception ([CHR 0x27] @ type_name v @ [CHR 0x27]
                          @ '' object has no attribute '' @ [CHR 0x27] @ ''get'' @ [CHR 0x27]))"

text \<open>\<open>x[:n]\<close>.  Slicing a dictionary raises \<open>TypeError\<close> up to Python 3.11 and
  \<open>KeyError\<close> from 3.12 on; the message is the former's.\<close>

fun py_slice_to :: "nat \<Rightarrow> pyval \<Rightarrow> exn + pyval" where
  "py_slice_to n (PStr s) = Inr (PStr (take n s))"
| "py_slice_to n (PList xs) = Inr (PList (take n xs))"
| "py_slice_to n (PDict d) = Inl (Exception (''unhashable type: '' @ [CHR 0x27] @ ''slice''
                                @ [CHR 0x27]))"
| "py_slice_to n v = Inl (Exception ([CHR 0x27] @ type_name v @ [CHR 0x27]
                            @ '' object is not subscriptable''))"

text \<open>Decimal digits of a natural number and of an integer: \<open>str(n)\<close>.\<close>

fun str_nat :: "nat \<Rightarrow> string" where
  "str_nat n =
     (if n < 10 then [''0123456789'' ! n]
      else str_nat (n div 10) @ [''0123456789'' ! (n mod 10)])"

declare str_nat.simps [simp del]

definition str_int :: "int \<Rightarrow> string" where
  "str_int i = (if i < 0 then ''-'' @ str_nat (nat (- i)) else str_nat (nat i))"

text \<open>\<open>sep.join(x)\<close>: \<open>x\<close> must be iterable and every item a string.  Iterating a
  string yields its characters, iterating a dictionary its keys.\<close>

fun join_strings :: "string \<Rightarrow> string list \<Rightarrow> string" where
  "join_strings sep [] = []"
| "join_strings sep [s] = s"
| "join_strings sep (s # t # ss) = s @ sep @ join_strings sep (t # ss)"

fun join_items :: "nat \<Rightarrow> pyval list \<Rightarrow> exn + string list" where
  "join_items i [] = Inr []"
| "join_items i (PStr s # vs) =
     (case join_items (Suc i) vs of Inl e \<Rightarrow> Inl e | Inr ss \<Rightarrow> Inr (s # ss))"
| "join_items i (v # vs) =
     Inl (Exception (''sequence item '' @ str_nat i @ '': expected str instance, ''
            @ type_name v @ '' found''))"

fun py_join :: "string \<Rightarrow> pyval \<Rightarrow> exn + string" where
  "py_join sep (PList xs) =
     (case join_items 0 xs of Inl e \<Rightarrow> Inl e | Inr ss \<Rightarrow> Inr (join_strings sep ss))"
| "py_join sep (PStr s) = Inr (join_strings sep (map (\<lambda>c. [c]) s))"
| "py_join sep (PDict d) = Inr (join_strings sep (map fst d))"
| "py_join sep v = Inl (Exception ''can only join an iterable'')"

text \<open>\<open>d[key]\<close> and \<open>key in d\<close> on a dictionary the code built itself.\<close>

definition py_item :: "pydict \<Rightarrow> string \<Rightarrow> exn + pyval" where
  "py_item d key =
     (case map_of d key of
        Some v \<Rightarrow> Inr v
      | None \<Rightarrow> Inl (Exception ([CHR 0x27] @ key @ [CHR 0x27])))"

definition has_key :: "string \<Rightarrow> pydict \<Rightarrow> bool" where
  "has_key key d = (map_of d key \<noteq> None)"

text \<open>\<open>str.lower()\<close> and \<open>str.replace\<close> of one character by another.  The characters
  of the model are the code points below 256; among them \<open>str.lower()\<close> changes the
  capitals \<open>A\<close> to \<open>Z\<close> (65 to 90) and the accented capitals 192 to 222 other than the
  multiplication sign 215, each to the code point 32 above it.\<close>

definition lower_char :: "char \<Rightarrow> char" where
  "lower_char c =
     (let n = (of_char c :: nat)
      in if (65 \<le> n \<and> n \<le> 90) \<or> (192 \<le> n \<and> n \<le> 222 \<and> n \<noteq> 215)
         then char_of (n + 32) else c)"

definition lower :: "string \<Rightarrow> string" where
  "lower s = map lower_char s"

definition replace_char :: "char \<Rightarrow> char \<Rightarrow> string \<Rightarrow> string" where
  "replace_char old new s = map (\<lambda>c. if c = old then new else c) s"

section \<open>Effects\<close>

text \<open>
  A call of a scraper is modelled by what it returns (a value or the exception it lets
  escape) together with the trace of what it did to the outside world, in order: the
  requests it sent, the times it slept and the lines it logged.  Logging, sleeping and
  formatting an exception into a message do not raise.
\<close>

datatype event =
    HttpGet string "(string \<times> string) list option" nat
  | FetchUrl string
  | SearchPubs string
  | FillPub pyval
  | Sleep nat
  | LogError string
  | LogWarning string

type_synonym 'a io = "event list \<times> (exn + 'a)"

definition io_return :: "'a \<Rightarrow> 'a io" where
  "io_return x = ([], Inr x)"

text \<open>A library call that touches nothing outside the process (parsing, a method of an
  object already in memory).\<close>

definition io_lift :: "exn + 'a \<Rightarrow> 'a io" where
  "io_lift r = ([], r)"

text \<open>A library call recorded in the trace.\<close>

definition io_call :: "event \<Rightarrow> exn + 'a \<Rightarrow> 'a io" where
  "io_call ev r = ([ev], r)"

text \<open>\<open>logger.error(msg)\<close>, \<open>logger.warning(msg)\<close> and \<open>time.sleep(n)\<close>: recorded in
  the trace, nothing returned.\<close>

definition io_do :: "event \<Rightarrow> unit io" where
  "io_do ev = ([ev], Inr ())"

text \<open>Sequencing: an exception skips the rest.\<close>

definition io_bind :: "'a io \<Rightarrow> ('a \<Rightarrow> 'b io) \<Rightarrow> 'b io" where
  "io_bind m f =
     (case m of
        (t, Inl e) \<Rightarrow> (t, Inl e)
      | (t, Inr x) \<Rightarrow> (case f x of (t', r) \<Rightarrow> (t @ t', r)))"

text \<open>\<open>try: m except Exception as e: h e\<close>.\<close>

definition io_try :: "'a io \<Rightarrow> (exn \<Rightarrow> 'a io) \<Rightarrow> 'a io" where
  "io_try m h =
     (case m of
        (t, Inl e) \<Rightarrow> (case h e of (t', r) \<Rightarrow> (t @ t', r))
      | (t, Inr x) \<Rightarrow> (t, Inr x))"

section \<open>The libraries, as an environment\<close>

text \<open>
  What \<open>requests.get\<close> returns: the attributes and methods of the response the code
  uses.  \<open>raise_for_status()\<close> and \<open>json()\<close> return or raise.
\<close>

record response =
  status_code :: int
  content :: string
  raise_for_status :: "exn + unit"
  json :: "exn + pyval"

text \<open>
  The calls into requests, bs4, trafilatura, scholarly and the standard library.  \<open>'el\<close>
  is bs4's type of a parsed document and of the elements inside it.  Every call may
  raise.  The comment of each field is the Python expression it stands for.

  A call is a function of its arguments: asked the same question twice, a library gives
  the same answer.  The scrapers ask a question twice in two places only:
  \<open>article.find('a')\<close> in \<open>scrape_bioRxiv_preprints\<close>, and \<open>requests.get\<close> in
  \<open>scrape_company_pipeline\<close> should the first search result link to the search page
  itself.
\<close>

record 'el world =
  requests_get :: "string \<Rightarrow> (string \<times> string) list option \<Rightarrow> nat \<Rightarrow> exn + response"
    \<comment> \<open>\<open>requests.get(url, headers=headers, timeout=timeout)\<close>\<close>
  beautiful_soup :: "string \<Rightarrow> exn + 'el"
    \<comment> \<open>\<open>BeautifulSoup(content, 'html.parser')\<close>\<close>
  find_string :: "'el \<Rightarrow> string \<Rightarrow> exn + 'el option"
    \<comment> \<open>\<open>el.find(string=lambda text: text and s in text)\<close>\<close>
  find_tag_string :: "'el \<Rightarrow> string \<Rightarrow> string \<Rightarrow> exn + 'el option"
    \<comment> \<open>\<open>el.find(tag, string=s)\<close>\<close>
  find_tag_class :: "'el \<Rightarrow> string \<Rightarrow> string \<Rightarrow> exn + 'el option"
    \<comment> \<open>\<open>el.find(tag, class_=c)\<close>\<close>
  find_tag :: "'el \<Rightarrow> string \<Rightarrow> exn + 'el option"
    \<comment> \<open>\<open>el.find(tag)\<close>\<close>
  find_all_tag_class :: "'el \<Rightarrow> string \<Rightarrow> string \<Rightarrow> int \<Rightarrow> exn + 'el list"
    \<comment> \<open>\<open>el.find_all(tag, class_=c, limit=n)\<close>\<close>
  find_parent :: "'el \<Rightarrow> exn + 'el option"
    \<comment> \<open>\<open>el.find_parent()\<close>\<close>
  find_next_sibling :: "'el \<Rightarrow> string \<Rightarrow> exn + 'el option"
    \<comment> \<open>\<open>el.find_next_sibling(tag)\<close>\<close>
  get_text :: "'el \<Rightarrow> bool \<Rightarrow> exn + string"
    \<comment> \<open>\<open>el.get_text(strip=b)\<close>\<close>
  attr_item :: "'el \<Rightarrow> string \<Rightarrow> exn + string"
    \<comment> \<open>\<open>el[name]\<close>\<close>
  attr_get :: "'el \<Rightarrow> string \<Rightarrow> string \<Rightarrow> exn + string"
    \<comment> \<open>\<open>el.get(name, default)\<close>\<close>
  fetch_url :: "string \<Rightarrow> exn + string option"
    \<comment> \<open>\<open>trafilatura.fetch_url(url)\<close>\<close>
  trafilatura_extract :: "string option \<Rightarrow> (string \<times> bool) list \<Rightarrow> exn + string option"
    \<comment> \<open>\<open>trafilatura.extract(doc, **flags)\<close>\<close>
  search_pubs :: "string \<Rightarrow> exn + (exn + pyval) list"
    \<comment> \<open>\<open>scholarly.search_pubs(query)\<close>: the generator, as the list of what each
       \<open>next\<close> yields or raises\<close>
  fill :: "pyval \<Rightarrow> exn + pyval"
    \<comment> \<open>\<open>scholarly.fill(pub)\<close>\<close>
  quote_plus :: "string \<Rightarrow> string"
    \<comment> \<open>\<open>urllib.parse.quote_plus(s)\<close>\<close>
  builtin_str :: "pyval \<Rightarrow> string"
    \<comment> \<open>\<open>str(x)\<close> of a float, a list or a dictionary\<close>

text \<open>\<open>str(x)\<close>, as an f-string applies it to a value.\<close>

fun py_str :: "'el world \<Rightarrow> pyval \<Rightarrow> string" where
  "py_str w (PStr s) = s"
| "py_str w (PInt n) = str_int n"
| "py_str w PNone = ''None''"
| "py_str w (PBool b) = (if b then ''True'' else ''False'')"
| "py_str w v = builtin_str w v"

definition ua_headers :: "(string \<times> string) list" where
  "ua_headers =
     [(''User-Agent'', ''Mozilla/5.0 (Windows NT 10.0; Win64; x64) AppleWebKit/537.36'')]"

definition http_get ::
  "'el world \<Rightarrow> string \<Rightarrow> (string \<times> string) list option \<Rightarrow> nat \<Rightarrow> response io" where
  "http_get w url headers timeout =
     io_call (HttpGet url headers timeout) (requests_get w url headers timeout)"


section \<open>tools/web\_scraping\_tools.py: class WebScraperAPI\<close>

definition scrape_clean_text :: "'el world \<Rightarrow> string \<Rightarrow> string io" where
  "scrape_clean_text w url =
     io_try
       (io_bind (io_call (FetchUrl url) (fetch_url w url)) (\<lambda>downloaded.
        io_bind (io_lift (trafilatura_extract w downloaded
                   [(''include_comments'', False), (''include_tables'', True),
                    (''no_fallback'', False)])) (\<lambda>text.
        io_return (case text of
                     None \<Rightarrow> ''Could not extract content''
                   | Some t \<Rightarrow> if t = [] then ''Could not extract content'' else t))))
       (\<lambda>e.
        io_bind (io_do (LogError (''Error scraping '' @ url @ '': '' @ message e))) (\<lambda>_.
        io_return (''Error: '' @ message e)))"

text \<open>
  \<open>scrape_google_scholar\<close>, lines 36--65.  \<open>bib_field\<close> is the expression
  \<open>filled.get('bib', {}).get(key, default)\<close>; \<open>scholar_entry\<close> is the body of the inner
  \<open>try\<close> (lines 47--57): fill the publication, append its dictionary, sleep two
  seconds.
\<close>

definition bib_field :: "pyval \<Rightarrow> string \<Rightarrow> pyval \<Rightarrow> pyval io" where
  "bib_field filled key dflt =
     io_bind (io_lift (py_get filled ''bib'' (PDict []))) (\<lambda>bib.
     io_lift (py_get bib key dflt))"

definition scholar_entry :: "'el world \<Rightarrow> pyval \<Rightarrow> pydict list \<Rightarrow> pydict list io" where
  "scholar_entry w pub results =
     io_bind (io_call (FillPub pub) (fill w pub)) (\<lambda>filled.
     io_bind (bib_field filled ''title'' (PStr ''N/A'')) (\<lambda>title.
     io_bind (bib_field filled ''author'' (PList [])) (\<lambda>authors.
     io_bind (bib_field filled ''pub_year'' (PStr ''N/A'')) (\<lambda>year.
     io_bind (bib_field filled ''venue'' (PStr ''N/A'')) (\<lambda>venue.
     io_bind (io_lift (py_get filled ''num_citations'' (PInt 0))) (\<lambda>citations.
     io_bind (io_lift (py_get filled ''pub_url'' (PStr ''N/A''))) (\<lambda>url.
     io_bind (bib_field filled ''abstract'' (PStr ''N/A'')) (\<lambda>abstract.
     io_bind (io_lift (py_slice_to 500 abstract)) (\<lambda>abstract.
     io_bind (io_do (Sleep 2)) (\<lambda>_.
     io_return (results @
       [[(''title'', title), (''authors'', authors), (''year'', year), (''venue'', venue),
         (''citations'', citations), (''url'', url), (''abstract'', abstract)]])))))))))))"

text \<open>The \<open>for i, pub in enumerate(search_query)\<close> loop: \<open>i\<close> counts from the
  argument, the list is what the generator still has to yield.\<close>

fun scholar_loop ::
  "'el world \<Rightarrow> int \<Rightarrow> nat \<Rightarrow> (exn + pyval) list \<Rightarrow> pydict list \<Rightarrow> pydict list io" where
  "scholar_loop w max_results i [] results = io_return results"
| "scholar_loop w max_results i (nxt # rest) results =
     io_bind (io_lift nxt) (\<lambda>pub.
       if int i \<ge> max_results then io_return results
       else
         io_bind
           (io_try (scholar_entry w pub results)
              (\<lambda>e.
               io_bind (io_do (LogWarning (''Error filling publication: '' @ message e))) (\<lambda>_.
               io_return results)))
           (\<lambda>results. scholar_loop w max_results (Suc i) rest results))"

definition scrape_google_scholar :: "'el world \<Rightarrow> string \<Rightarrow> int \<Rightarrow> pydict list io" where
  "scrape_google_scholar w query max_results =
     io_try
       (io_bind (io_call (SearchPubs query) (search_pubs w query)) (\<lambda>search_query.
        scholar_loop w max_results 0 search_query []))
       (\<lambda>e.
        io_bind (io_do (LogError (''Error scraping Google Scholar: '' @ message e))) (\<lambda>_.
        io_return []))"

text \<open>
  \<open>scrape_drugbank_info\<close>, lines 67--103.  The two blocks at lines 86--91 and 93--98
  differ only in the heading they look for and the key they set; \<open>drugbank_section\<close> is
  that block.
\<close>

definition drugbank_section ::
  "'el world \<Rightarrow> 'el \<Rightarrow> string \<Rightarrow> string \<Rightarrow> pydict \<Rightarrow> pydict io" where
  "drugbank_section w soup heading key data =
     io_bind (io_lift (find_tag_string w soup ''dt'' heading)) (\<lambda>section.
     case section of
       None \<Rightarrow> io_return data
     | Some sec \<Rightarrow>
         io_bind (io_lift (find_next_sibling w sec ''dd'')) (\<lambda>dd.
         case dd of
           None \<Rightarrow> io_return data
         | Some el \<Rightarrow>
             io_bind (io_lift (get_text w el True)) (\<lambda>text.
             io_return (AList.update key (PStr (take 500 text)) data))))"

definition drugbank_url :: "string \<Rightarrow> string" where
  "drugbank_url drug_name =
     ''https://go.drugbank.com/drugs/'' @ replace_char CHR '' '' CHR ''_'' (lower drug_name)"

definition scrape_drugbank_info :: "'el world \<Rightarrow> string \<Rightarrow> pydict option io" where
  "scrape_drugbank_info w drug_name =
     (let url = drugbank_url drug_name in
      io_try
        (io_bind (http_get w url None 10) (\<lambda>response.
         io_bind (io_lift (raise_for_status response)) (\<lambda>_.
         io_bind (io_lift (beautiful_soup w (content response))) (\<lambda>soup.
         let data = [(''drug_name'', PStr drug_name), (''drugbank_url'', PStr url),
                     (''mechanism'', PStr ''''), (''pharmacodynamics'', PStr ''''),
                     (''indication'', PStr ''''), (''pharmacokinetics'', PStr '''')]
         in
         io_bind (drugbank_section w soup ''Mechanism of action'' ''mechanism'' data) (\<lambda>data.
         io_bind (drugbank_section w soup ''Pharmacodynamics'' ''pharmacodynamics'' data) (\<lambda>data.
         io_return (Some data)))))))
        (\<lambda>e.
         io_bind (io_do (LogError (''Error scraping DrugBank for '' @ drug_name @ '': ''
                                    @ message e))) (\<lambda>_.
         io_return None)))"

text \<open>
  \<open>scrape_bioRxiv_preprints\<close>, lines 105--138.  \<open>text_or_na\<close> is
  \<open>el.get_text(strip=True) if el else "N/A"\<close>; \<open>article_url\<close> is the \<open>"url"\<close>
  expression of line 132, which calls \<open>article.find('a')\<close> once for the test and once
  more for the link; \<open>biorxiv_entry\<close> is the body of the loop over the articles.
\<close>

definition text_or_na :: "'el world \<Rightarrow> 'el option \<Rightarrow> string io" where
  "text_or_na w elem =
     (case elem of None \<Rightarrow> io_return ''N/A'' | Some el \<Rightarrow> io_lift (get_text w el True))"

definition article_url :: "'el world \<Rightarrow> 'el \<Rightarrow> string io" where
  "article_url w article =
     io_bind (io_lift (find_tag w article ''a'')) (\<lambda>test.
     case test of
       None \<Rightarrow> io_return ''N/A''
     | Some _ \<Rightarrow>
         io_bind (io_lift (find_tag w article ''a'')) (\<lambda>link.
         case link of
           None \<Rightarrow> io_lift (Inl (Exception ([CHR 0x27] @ ''NoneType'' @ [CHR 0x27]
                                   @ '' object is not subscriptable'')))
         | Some a \<Rightarrow>
             io_bind (io_lift (attr_item w a ''href'')) (\<lambda>href.
             io_return (''https://www.biorxiv.org'' @ href))))"

definition biorxiv_entry :: "'el world \<Rightarrow> 'el \<Rightarrow> pydict io" where
  "biorxiv_entry w article =
     io_bind (io_lift (find_tag_class w article ''span'' ''highwire-cite-title'')) (\<lambda>title_elem.
     io_bind (io_lift (find_tag_class w article ''span'' ''highwire-citation-authors''))
       (\<lambda>author_elem.
     io_bind (io_lift (find_tag_class w article ''span'' ''highwire-cite-metadata-date''))
       (\<lambda>date_elem.
     io_bind (io_lift (find_tag_class w article ''span'' ''highwire-cite-metadata-doi''))
       (\<lambda>doi_elem.
     io_bind (text_or_na w title_elem) (\<lambda>title.
     io_bind (text_or_na w author_elem) (\<lambda>authors.
     io_bind (text_or_na w date_elem) (\<lambda>date.
     io_bind (text_or_na w doi_elem) (\<lambda>doi.
     io_bind (article_url w article) (\<lambda>url.
     io_return [(''title'', PStr title), (''authors'', PStr authors), (''date'', PStr date),
                (''doi'', PStr doi), (''url'', PStr url)])))))))))"

fun biorxiv_loop :: "'el world \<Rightarrow> 'el list \<Rightarrow> pydict list \<Rightarrow> pydict list io" where
  "biorxiv_loop w [] results = io_return results"
| "biorxiv_loop w (article # rest) results =
     io_bind (biorxiv_entry w article) (\<lambda>entry.
     biorxiv_loop w rest (results @ [entry]))"

definition biorxiv_url :: "'el world \<Rightarrow> string \<Rightarrow> string" where
  "biorxiv_url w query = ''https://www.biorxiv.org/search/'' @ quote_plus w query"

definition scrape_bioRxiv_preprints :: "'el world \<Rightarrow> string \<Rightarrow> int \<Rightarrow> pydict list io" where
  "scrape_bioRxiv_preprints w query max_results =
     io_try
       (let search_url = biorxiv_url w query in
        io_bind (http_get w search_url (Some ua_headers) 10) (\<lambda>response.
        io_bind (io_lift (raise_for_status response)) (\<lambda>_.
        io_bind (io_lift (beautiful_soup w (content response))) (\<lambda>soup.
        io_bind (io_lift (find_all_tag_class w soup ''div'' ''highwire-article-citation''
                            max_results)) (\<lambda>articles.
        biorxiv_loop w articles [])))))
       (\<lambda>e.
        io_bind (io_do (LogError (''Error scraping bioRxiv: '' @ message e))) (\<lambda>_.
        io_return []))"

text \<open>\<open>scrape_company_pipeline\<close>, lines 140--174.\<close>

definition pipeline_search_url :: "'el world \<Rightarrow> string \<Rightarrow> string" where
  "pipeline_search_url w company_name =
     ''https://html.duckduckgo.com/html/?q=''
     @ quote_plus w (company_name @ '' pharmaceutical pipeline'')"

definition scrape_company_pipeline :: "'el world \<Rightarrow> string \<Rightarrow> pydict io" where
  "scrape_company_pipeline w company_name =
     io_try
       (let search_url = pipeline_search_url w company_name;
            not_found = [(''company'', PStr company_name),
                         (''error'', PStr ''No pipeline page found'')]
        in
        io_bind (http_get w search_url (Some ua_headers) 10) (\<lambda>response.
        io_bind (io_lift (beautiful_soup w (content response))) (\<lambda>soup.
        io_bind (io_lift (find_tag_class w soup ''a'' ''result__url'')) (\<lambda>first_result.
        case first_result of
          None \<Rightarrow> io_return not_found
        | Some first \<Rightarrow>
            io_bind (io_lift (attr_get w first ''href'' '''')) (\<lambda>pipeline_url.
            if pipeline_url \<noteq> [] then
              io_bind (http_get w pipeline_url (Some ua_headers) 10) (\<lambda>pipeline_resp.
              io_bind (io_lift (trafilatura_extract w (Some (content pipeline_resp))
                         [(''include_tables'', True)])) (\<lambda>extracted.
              io_return
                [(''company'', PStr company_name), (''url'', PStr pipeline_url),
                 (''content'',
                  PStr (case extracted of
                          None \<Rightarrow> ''No content extracted''
                        | Some c \<Rightarrow> if c = [] then ''No content extracted''
                                    else take 2000 c))]))
            else io_return not_found)))))
       (\<lambda>e.
        io_bind (io_do (LogError (''Error scraping company pipeline: '' @ message e))) (\<lambda>_.
        io_return [(''company'', PStr company_name), (''error'', PStr (message e))]))"

section \<open>tools/database\_scraping\_tools.py: class RareDiseaseDatabase\<close>

definition orphanet_url :: "string \<Rightarrow> string" where
  "orphanet_url disease_name =
     ''https://www.orpha.net/consor/cgi-bin/Disease_Search.php?lng=EN&data_id=&Disease_Disease_Search_diseaseGroup=''
     @ disease_name"

definition scrape_orphanet :: "'el world \<Rightarrow> string \<Rightarrow> pydict io" where
  "scrape_orphanet w disease_name =
     io_try
       (let search_url = orphanet_url disease_name in
        io_bind (http_get w search_url (Some ua_headers) 15) (\<lambda>response.
        io_bind (io_lift (raise_for_status response)) (\<lambda>_.
        io_bind (io_lift (beautiful_soup w (content response))) (\<lambda>soup.
        let disease_info =
              [(''name'', PStr disease_name), (''prevalence'', PStr ''Unknown''),
               (''inheritance'', PStr ''Unknown''), (''age_of_onset'', PStr ''Unknown''),
               (''orphanet_url'', PStr search_url)]
        in
        io_bind (io_lift (find_string w soup ''Prevalence'')) (\<lambda>prev_elem.
        case prev_elem of
          None \<Rightarrow> io_return disease_info
        | Some prev \<Rightarrow>
            io_bind (io_lift (find_parent w prev)) (\<lambda>parent.
            case parent of
              None \<Rightarrow> io_return disease_info
            | Some par \<Rightarrow>
                io_bind (io_lift (get_text w par True)) (\<lambda>text.
                io_return (AList.update ''prevalence'' (PStr text) disease_info))))))))
       (\<lambda>e.
        io_bind (io_do (LogError (''Error scraping Orphanet: '' @ message e))) (\<lambda>_.
        io_return [(''name'', PStr disease_name), (''error'', PStr (message e))]))"

text \<open>
  \<open>scrape_rare_diseases_info\<close>, lines 50--87.  \<open>gard_search\<close> is the block under
  \<open>if response.status_code == 404\<close> (lines 64--76): it yields the dictionary the function
  returns from inside the block, or \<open>None\<close> when control falls through to line 78.
\<close>

definition gard_url :: "string \<Rightarrow> string" where
  "gard_url disease_name =
     ''https://rarediseases.info.nih.gov/diseases/''
     @ lower (replace_char CHR '' '' CHR ''-'' disease_name)"

definition gard_search_api :: "string \<Rightarrow> string" where
  "gard_search_api disease_name =
     ''https://rarediseases.info.nih.gov/api/gard/search?q='' @ disease_name"

definition gard_search :: "'el world \<Rightarrow> string \<Rightarrow> pydict option io" where
  "gard_search w disease_name =
     (let search_api = gard_search_api disease_name in
      io_bind (http_get w search_api (Some ua_headers) 15) (\<lambda>api_response.
      if status_code api_response = 200 then
        io_bind (io_lift (json api_response)) (\<lambda>data.
        io_bind (if py_truthy data
                 then io_bind (io_lift (py_len data)) (\<lambda>n. io_return (n > 0))
                 else io_return False) (\<lambda>nonempty.
        if nonempty then
          io_bind (io_lift (py_first data)) (\<lambda>first_result.
          io_bind (io_lift (py_get first_result ''name'' (PStr disease_name))) (\<lambda>name.
          io_bind (io_lift (py_get first_result ''gard_id'' (PStr ''N/A''))) (\<lambda>gard_id.
          io_bind (io_lift (py_get first_result ''synonyms'' (PList []))) (\<lambda>synonyms.
          io_bind (io_lift (py_get first_result ''gard_id'' (PStr ''''))) (\<lambda>url_id.
          io_return (Some
            [(''name'', name), (''gard_id'', gard_id), (''synonyms'', synonyms),
             (''url'', PStr (''https://rarediseases.info.nih.gov/diseases/''
                             @ py_str w url_id))]))))))
        else io_return None))
      else io_return None))"

definition scrape_rare_diseases_info :: "'el world \<Rightarrow> string \<Rightarrow> pydict io" where
  "scrape_rare_diseases_info w disease_name =
     io_try
       (let search_url = gard_url disease_name in
        io_bind (http_get w search_url (Some ua_headers) 15) (\<lambda>response.
        io_bind (if status_code response = 404 then gard_search w disease_name
                 else io_return None) (\<lambda>found.
        case found of
          Some result \<Rightarrow> io_return result
        | None \<Rightarrow>
            io_bind (io_lift (beautiful_soup w (content response))) (\<lambda>soup.
            io_bind (io_lift (get_text w soup False)) (\<lambda>text.
            io_return [(''name'', PStr disease_name), (''content'', PStr (take 1000 text)),
                       (''url'', PStr search_url)])))))
       (\<lambda>e.
        io_bind (io_do (LogError (''Error scraping GARD: '' @ message e))) (\<lambda>_.
        io_return [(''name'', PStr disease_name), (''error'', PStr (message e))]))"


section \<open>The tools handed to the agents\<close>

text \<open>tools/web\_scraping\_tools.py, lines 177--297.\<close>

definition format_paper :: "'el world \<Rightarrow> nat \<Rightarrow> pydict \<Rightarrow> string io" where
  "format_paper w i paper =
     io_bind (io_lift (py_item paper ''title'')) (\<lambda>title.
     io_bind (io_lift (py_item paper ''authors'')) (\<lambda>authors.
     io_bind (io_lift (py_slice_to 3 authors)) (\<lambda>first3.
     io_bind (io_lift (py_join '', '' first3)) (\<lambda>joined.
     io_bind (io_lift (py_item paper ''year'')) (\<lambda>year.
     io_bind (io_lift (py_item paper ''venue'')) (\<lambda>venue.
     io_bind (io_lift (py_item paper ''citations'')) (\<lambda>citations.
     io_bind (io_lift (py_item paper ''abstract'')) (\<lambda>abstract.
     io_bind (io_lift (py_item paper ''url'')) (\<lambda>url.
     io_return
       (str_nat i @ ''. '' @ py_str w title @ ''\<newline>''
        @ ''   Authors: '' @ joined @ ''\<newline>''
        @ ''   Year: '' @ py_str w year @ ''\<newline>''
        @ ''   Venue: '' @ py_str w venue @ ''\<newline>''
        @ ''   Citations: '' @ py_str w citations @ ''\<newline>''
        @ ''   Abstract: '' @ py_str w abstract @ ''...\<newline>''
        @ ''   URL: '' @ py_str w url @ ''\<newline>\<newline>''))))))))))"

fun format_papers :: "'el world \<Rightarrow> nat \<Rightarrow> pydict list \<Rightarrow> string \<Rightarrow> string io" where
  "format_papers w i [] result = io_return result"
| "format_papers w i (paper # rest) result =
     io_bind (format_paper w i paper) (\<lambda>lines.
     format_papers w (Suc i) rest (result @ lines))"

definition search_google_scholar_papers :: "'el world \<Rightarrow> string \<Rightarrow> string io" where
  "search_google_scholar_papers w query =
     io_bind (scrape_google_scholar w query 8) (\<lambda>papers.
     if papers = [] then io_return (''No papers found for query: '' @ query)
     else format_papers w 1 papers
            (''Google Scholar Results for '' @ [CHR 0x27] @ query @ [CHR 0x27]
             @ '':\<newline>\<newline>''))"

definition get_drug_mechanism_details :: "'el world \<Rightarrow> string \<Rightarrow> string io" where
  "get_drug_mechanism_details w drug_name =
     io_bind (scrape_drugbank_info w drug_name) (\<lambda>data.
     case data of
       None \<Rightarrow> io_return (''Could not retrieve DrugBank data for: '' @ drug_name)
     | Some d \<Rightarrow>
         if d = [] then io_return (''Could not retrieve DrugBank data for: '' @ drug_name)
         else
           io_bind (io_lift (py_item d ''mechanism'')) (\<lambda>mechanism.
           io_bind (io_lift (py_item d ''pharmacodynamics'')) (\<lambda>pharmacodynamics.
           io_bind (io_lift (py_item d ''drugbank_url'')) (\<lambda>url.
           io_return
             (''DrugBank Information for '' @ drug_name @ '':\<newline>\<newline>''
              @ ''Mechanism of Action:\<newline>'' @ py_str w mechanism @ ''\<newline>\<newline>''
              @ ''Pharmacodynamics:\<newline>'' @ py_str w pharmacodynamics
              @ ''\<newline>\<newline>''
              @ ''Source: '' @ py_str w url @ ''\<newline>'')))))"

definition format_preprint :: "'el world \<Rightarrow> nat \<Rightarrow> pydict \<Rightarrow> string io" where
  "format_preprint w i paper =
     io_bind (io_lift (py_item paper ''title'')) (\<lambda>title.
     io_bind (io_lift (py_item paper ''authors'')) (\<lambda>authors.
     io_bind (io_lift (py_item paper ''date'')) (\<lambda>date.
     io_bind (io_lift (py_item paper ''doi'')) (\<lambda>doi.
     io_bind (io_lift (py_item paper ''url'')) (\<lambda>url.
     io_return
       (str_nat i @ ''. '' @ py_str w title @ ''\<newline>''
        @ ''   Authors: '' @ py_str w authors @ ''\<newline>''
        @ ''   Date: '' @ py_str w date @ ''\<newline>''
        @ ''   DOI: '' @ py_str w doi @ ''\<newline>''
        @ ''   URL: '' @ py_str w url @ ''\<newline>\<newline>''))))))"

fun format_preprints :: "'el world \<Rightarrow> nat \<Rightarrow> pydict list \<Rightarrow> string \<Rightarrow> string io" where
  "format_preprints w i [] result = io_return result"
| "format_preprints w i (paper # rest) result =
     io_bind (format_preprint w i paper) (\<lambda>lines.
     format_preprints w (Suc i) rest (result @ lines))"

definition search_biorxiv_preprints :: "'el world \<Rightarrow> string \<Rightarrow> string io" where
  "search_biorxiv_preprints w query =
     io_bind (scrape_bioRxiv_preprints w query 5) (\<lambda>preprints.
     if preprints = [] then io_return (''No preprints found for: '' @ query)
     else format_preprints w 1 preprints
            (''Latest bioRxiv Preprints for '' @ [CHR 0x27] @ query @ [CHR 0x27]
             @ '':\<newline>\<newline>''))"

definition scrape_company_pipeline_info :: "'el world \<Rightarrow> string \<Rightarrow> string io" where
  "scrape_company_pipeline_info w company_name =
     io_bind (scrape_company_pipeline w company_name) (\<lambda>data.
     if has_key ''error'' data then
       io_bind (io_lift (py_item data ''error'')) (\<lambda>err.
       io_return (''Error retrieving pipeline for '' @ company_name @ '': '' @ py_str w err))
     else
       io_bind (io_lift (py_item data ''url'')) (\<lambda>url.
       io_bind (io_lift (py_item data ''content'')) (\<lambda>page.
       io_return
         (''Pipeline Information for '' @ company_name @ '':\<newline>\<newline>''
          @ ''Source: '' @ py_str w url @ ''\<newline>\<newline>''
          @ ''Content:\<newline>'' @ py_str w page @ ''\<newline>''))))"

definition extract_webpage_content :: "'el world \<Rightarrow> string \<Rightarrow> string io" where
  "extract_webpage_content w url =
     io_bind (scrape_clean_text w url) (\<lambda>page.
     io_return (''Content from '' @ url @ '':\<newline>\<newline>'' @ take 3000 page))"

text \<open>tools/database\_scraping\_tools.py, lines 90--139.\<close>

definition search_orphanet_rare_disease :: "'el world \<Rightarrow> string \<Rightarrow> string io" where
  "search_orphanet_rare_disease w disease_name =
     io_bind (scrape_orphanet w disease_name) (\<lambda>data.
     if has_key ''error'' data then
       io_bind (io_lift (py_item data ''error'')) (\<lambda>err.
       io_return (''Could not find '' @ disease_name @ '' in Orphanet: '' @ py_str w err))
     else
       io_bind (io_lift (py_item data ''prevalence'')) (\<lambda>prevalence.
       io_bind (io_lift (py_item data ''inheritance'')) (\<lambda>inheritance.
       io_bind (io_lift (py_item data ''age_of_onset'')) (\<lambda>age_of_onset.
       io_bind (io_lift (py_item data ''orphanet_url'')) (\<lambda>url.
       io_return
         (''Orphanet Data for '' @ disease_name @ '':\<newline>\<newline>''
          @ ''Prevalence: '' @ py_str w prevalence @ ''\<newline>''
          @ ''Inheritance: '' @ py_str w inheritance @ ''\<newline>''
          @ ''Age of Onset: '' @ py_str w age_of_onset @ ''\<newline>''
          @ ''Source: '' @ py_str w url @ ''\<newline>''))))))"

definition search_gard_rare_disease :: "'el world \<Rightarrow> string \<Rightarrow> string io" where
  "search_gard_rare_disease w disease_name =
     io_bind (scrape_rare_diseases_info w disease_name) (\<lambda>data.
     if has_key ''error'' data then
       io_return (''Could not find '' @ disease_name @ '' in GARD'')
     else
       io_bind
         (if has_key ''gard_id'' data then
            io_bind (io_lift (py_item data ''gard_id'')) (\<lambda>gard_id.
            io_bind (io_lift (py_join '', ''
                       (case map_of data ''synonyms'' of Some v \<Rightarrow> v | None \<Rightarrow> PList [])))
              (\<lambda>synonyms.
            io_return
              (''GARD Information for '' @ disease_name @ '':\<newline>\<newline>''
               @ ''GARD ID: '' @ py_str w gard_id @ ''\<newline>''
               @ ''Synonyms: '' @ synonyms @ ''\<newline>'')))
          else io_return (''GARD Information for '' @ disease_name @ '':\<newline>\<newline>''))
         (\<lambda>result.
       io_bind (io_lift (py_item data ''url'')) (\<lambda>url.
       io_return (result @ ''URL: '' @ py_str w url @ ''\<newline>''))))"


section \<open>Observing a call\<close>

text \<open>The value or exception a call ends with, and its trace.\<close>

definition outcome :: "'a io \<Rightarrow> exn + 'a" where
  "outcome m = snd m"

definition trace :: "'a io \<Rightarrow> event list" where
  "trace m = fst m"

text \<open>The call returns (no exception escapes it).\<close>

definition returns :: "'a io \<Rightarrow> bool" where
  "returns m = (case outcome m of Inl _ \<Rightarrow> False | Inr _ \<Rightarrow> True)"

text \<open>Every value the call returns satisfies \<open>P\<close>.\<close>

definition ensures :: "('a \<Rightarrow> bool) \<Rightarrow> 'a io \<Rightarrow> bool" where
  "ensures P m = (case outcome m of Inl _ \<Rightarrow> True | Inr x \<Rightarrow> P x)"

text \<open>The requests and sleeps of a trace, in order, without the log lines.\<close>

fun is_log :: "event \<Rightarrow> bool" where
  "is_log (LogError _) = True"
| "is_log (LogWarning _) = True"
| "is_log _ = False"

definition actions :: "'a io \<Rightarrow> event list" where
  "actions m = filter (\<lambda>ev. \<not> is_log ev) (trace m)"

fun is_sleep :: "event \<Rightarrow> bool" where
  "is_sleep (Sleep _) = True"
| "is_sleep _ = False"

fun is_fill :: "event \<Rightarrow> bool" where
  "is_fill (FillPub _) = True"
| "is_fill _ = False"

text \<open>A dictionary value that is a string; one that is a string or a number.\<close>

fun is_str :: "pyval \<Rightarrow> bool" where
  "is_str (PStr _) = True"
| "is_str _ = False"

fun is_scalar :: "pyval \<Rightarrow> bool" where
  "is_scalar (PStr _) = True"
| "is_scalar (PInt _) = True"
| "is_scalar (PFloat _) = True"
| "is_scalar _ = False"

definition flat :: "pydict \<Rightarrow> bool" where
  "flat d = list_all (\<lambda>kv. is_scalar (snd kv)) d"

definition all_strings :: "pydict \<Rightarrow> bool" where
  "all_strings d = list_all (\<lambda>kv. is_str (snd kv)) d"




text \<open>A call that sends no request and never sleeps.\<close>

definition quiet :: "'a io \<Rightarrow> bool" where
  "quiet m = (actions m = [])"

text \<open>The publications a generator yields before it ends or raises.\<close>

fun yielded :: "(exn + pyval) list \<Rightarrow> pyval list" where
  "yielded [] = []"
| "yielded (Inl e # rest) = []"
| "yielded (Inr pub # rest) = pub # yielded rest"


section \<open>Sample inputs\<close>

text \<open>Concrete agents and a concrete call, used where a statement is evaluated.\<close>

definition sample_agent :: "string \<Rightarrow> unit agent" where
  "sample_agent r =
     \<lparr>role = r, goal = ''goal'', backstory = ''backstory'', tools = [], llm = (),
      verbose = True, allow_delegation = False, max_iter = 10\<rparr>"

definition sample_crew :: "bool \<Rightarrow> unit crew" where
  "sample_crew skip_deep =
     research_crew ''asthma drugs for LAM'' (sample_agent ''master'')
       (sample_agent ''clinical'') (sample_agent ''drug'') (sample_agent ''literature'')
       (sample_agent ''market'') (sample_agent ''deep'') skip_deep"

definition sample_run :: "(unit crew \<Rightarrow> exn + kickoff_result) \<Rightarrow> bool \<Rightarrow> exn + string" where
  "sample_run kickoff skip_deep =
     run_comprehensive_research_crew kickoff ''asthma drugs for LAM'' (sample_agent ''master'')
       (sample_agent ''clinical'') (sample_agent ''drug'') (sample_agent ''literature'')
       (sample_agent ''market'') (sample_agent ''deep'') () skip_deep"

text \<open>
  Two environments over documents that are plain strings.  In \<open>offline\<close> no request
  gets through and no page contains anything.  In \<open>online\<close> every request is answered
  with a page, every search inside a page finds an element, and Google Scholar yields one
  publication.
\<close>

definition page :: "string \<Rightarrow> response" where
  "page body =
     \<lparr>status_code = 200, content = body, raise_for_status = Inr (),
      json = Inl (Exception ''Expecting value: line 1 column 1 (char 0)'')\<rparr>"

definition offline :: "string world" where
  "offline =
     \<lparr>requests_get = (\<lambda>url headers timeout. Inl (Exception ''Connection refused'')),
      beautiful_soup = (\<lambda>doc. Inr doc),
      find_string = (\<lambda>el s. Inr None),
      find_tag_string = (\<lambda>el tag s. Inr None),
      find_tag_class = (\<lambda>el tag c. Inr None),
      find_tag = (\<lambda>el tag. Inr None),
      find_all_tag_class = (\<lambda>el tag c n. Inr []),
      find_parent = (\<lambda>el. Inr None),
      find_next_sibling = (\<lambda>el tag. Inr None),
      get_text = (\<lambda>el strip. Inr el),
      attr_item = (\<lambda>el name. Inl (Exception ([CHR 0x27] @ name @ [CHR 0x27]))),
      attr_get = (\<lambda>el name dflt. Inr dflt),
      fetch_url = (\<lambda>url. Inl (Exception ''Connection refused'')),
      trafilatura_extract = (\<lambda>doc flags. Inr None),
      search_pubs = (\<lambda>query. Inl (Exception ''Cannot Fetch from Google Scholar.'')),
      fill = (\<lambda>pub. Inr pub),
      quote_plus = replace_char CHR '' '' CHR ''+'',
      builtin_str = (\<lambda>v. ''[]'')\<rparr>"

definition sample_pub :: pyval where
  "sample_pub = PDict [(''bib'', PDict [(''title'', PStr ''Sirolimus in LAM'')])]"

definition online :: "string world" where
  "online =
     offline
       \<lparr>requests_get := (\<lambda>url headers timeout. Inr (page ''<html>page</html>'')),
        find_string := (\<lambda>el s. Inr (Some s)),
        find_tag_string := (\<lambda>el tag s. Inr (Some s)),
        find_tag_class := (\<lambda>el tag c. Inr (Some c)),
        find_tag := (\<lambda>el tag. Inr (Some tag)),
        find_all_tag_class := (\<lambda>el tag c n. Inr [c]),
        find_parent := (\<lambda>el. Inr (Some (el @ '': 1-9 / 100 000''))),
        find_next_sibling := (\<lambda>el tag. Inr (Some (el @ '' text''))),
        attr_item := (\<lambda>el name. Inr ''/content/10.1101/2024.01.01v1''),
        attr_get := (\<lambda>el name dflt. Inr ''https://www.pfizer.com/science/pipeline''),
        fetch_url := (\<lambda>url. Inr (Some ''<html>page</html>'')),
        trafilatura_extract := (\<lambda>doc flags. Inr (Some ''page'')),
        search_pubs := (\<lambda>query. Inr [Inr sample_pub])\<rparr>"

text \<open>Google Scholar yields two publications.\<close>

definition other_pub :: pyval where
  "other_pub = PDict [(''bib'', PDict [(''title'', PStr ''Everolimus in LAM'')])]"

definition two_pubs_world :: "string world" where
  "two_pubs_world = online\<lparr>search_pubs := (\<lambda>query. Inr [Inr sample_pub, Inr other_pub])\<rparr>"



text \<open>Google Scholar yields a publication whose author is \<open>None\<close>.\<close>

definition scholar_none_world :: "string world" where
  "scholar_none_world =
     online\<lparr>fill := (\<lambda>pub. Inr (PDict [(''bib'', PDict [(''author'', PNone)])]))\<rparr>"

text \<open>The GARD page is missing (status 404) and the search API answers with one hit
  whose \<open>synonyms\<close> is \<open>null\<close>.\<close>

definition gard_api_world :: "string world" where
  "gard_api_world =
     offline
       \<lparr>requests_get := (\<lambda>url headers timeout.
          if url = gard_search_api ''LAM''
          then Inr ((page '''')\<lparr>json := Inr (PList [PDict [(''name'', PStr ''LAM''),
                 (''gard_id'', PInt 7137), (''synonyms'', PNone)]])\<rparr>)
          else Inr ((page '''')\<lparr>status_code := 404\<rparr>))\<rparr>"


section \<open>The crew that \<open>run_comprehensive_research_crew\<close> builds\<close>

lemma stage_descriptions_distinct:
  "stage2_description \<noteq> stage1_description q"
  "stage2_description \<noteq> stage3_description"
  "stage2_description \<noteq> stage4_description"
  by (simp_all add: stage1_description_def stage2_description_def stage3_description_def
      stage4_description_def)

lemma stage_headings:
  "prefix ''\<newline>        STAGE 1: INITIAL DISCOVERY'' (stage1_description q)"
  "prefix ''\<newline>        STAGE 2: DEEP MECHANISM ANALYSIS'' stage2_description"
  "prefix ''\<newline>        STAGE 3: MARKET VALIDATION'' stage3_description"
  "prefix ''\<newline>        STAGE 4: SYNTHESIS'' stage4_description"
  by (simp_all add: stage1_description_def stage2_description_def stage3_description_def
      stage4_description_def)

lemma stage2_task_neq:
  "stage2_task q m dp \<noteq> stage1_task q m"
  "stage2_task q m dp \<noteq> stage3_task q m k dp sd"
  "stage2_task q m dp \<noteq> stage4_task q m k dp sd"
  by (simp_all add: stage1_task_def stage2_task_def stage3_task_def stage4_task_def
      stage_descriptions_distinct)

lemma research_crew_tasks:
  "tasks (research_crew q m c d l k dp sd) =
     (if sd then [stage1_task q m, stage3_task q m k dp True, stage4_task q m k dp True]
      else [stage1_task q m, stage2_task q m dp, stage3_task q m k dp False,
            stage4_task q m k dp False])"
  by (simp add: research_crew_def)

lemma research_crew_agents:
  "agents (research_crew q m c d l k dp sd) =
     (if sd then [m, c, d, l, k] else [m, c, d, l, k, dp])"
  by (simp add: research_crew_def)

lemma task_agents:
  "agent (stage1_task q m) = m"
  "agent (stage2_task q m dp) = dp"
  "agent (stage3_task q m k dp sd) = k"
  "agent (stage4_task q m k dp sd) = m"
  by (simp_all add: stage1_task_def stage2_task_def stage3_task_def stage4_task_def)

lemma task_contexts:
  "task_context (stage1_task q m) = []"
  "task_context (stage2_task q m dp) = [stage1_task q m]"
  "task_context (stage3_task q m k dp sd) =
     (if sd then [stage1_task q m] else [stage1_task q m, stage2_task q m dp])"
  "task_context (stage4_task q m k dp sd) =
     (if sd then [stage1_task q m, stage3_task q m k dp sd]
      else [stage1_task q m, stage2_task q m dp, stage3_task q m k dp sd])"
  by (simp_all add: stage1_task_def stage2_task_def stage3_task_def stage4_task_def)

lemma sample_agents_distinct:
  "sample_agent ''deep'' \<notin> set [sample_agent ''master'', sample_agent ''clinical'',
     sample_agent ''drug'', sample_agent ''literature'', sample_agent ''market'']"
  by (simp add: sample_agent_def)

text \<open>The crew is always created with \<open>process=Process.sequential\<close> (line 179).\<close>

lemma research_crew_process:
  "process (research_crew q m c d l k dp sd) = sequential"
  by (simp add: research_crew_def)

text \<open>
  C1, as stated: for every query the crew holds exactly the four tasks Stage 1, Stage 2,
  Stage 3 and Stage 4.  It fails when \<open>skip_deep\<close> is true: for the sample call the crew
  holds three tasks, Stage 1, Stage 3 and Stage 4.
\<close>

theorem four_stages_counterexample:
  "tasks (sample_crew True)
     = [stage1_task ''asthma drugs for LAM'' (sample_agent ''master''),
        stage3_task ''asthma drugs for LAM'' (sample_agent ''master'') (sample_agent ''market'')
          (sample_agent ''deep'') True,
        stage4_task ''asthma drugs for LAM'' (sample_agent ''master'') (sample_agent ''market'')
          (sample_agent ''deep'') True]
   \<and> length (tasks (sample_crew True)) = 3
   \<and> stage2_task ''asthma drugs for LAM'' (sample_agent ''master'') (sample_agent ''deep'')
       \<notin> set (tasks (sample_crew True))"
  by (simp add: sample_crew_def research_crew_tasks stage2_task_neq)

text \<open>
  C1, amended: for every query and all agents, the crew holds exactly the four tasks
  Stage 1 (Initial Discovery), Stage 2 (Deep Mechanism Analysis), Stage 3 (Market
  Validation) and Stage 4 (Synthesis), in that order, when \<open>skip_deep\<close> is false, and
  exactly the three tasks Stage 1, Stage 3 and Stage 4, in that order, when
  \<open>skip_deep\<close> is true.  Each task's description opens with its stage's heading.
\<close>

theorem research_crew_stages:
  "tasks (research_crew q m c d l k dp sd) =
     (if sd then [stage1_task q m, stage3_task q m k dp sd, stage4_task q m k dp sd]
      else [stage1_task q m, stage2_task q m dp, stage3_task q m k dp sd,
            stage4_task q m k dp sd])
   \<and> prefix ''\<newline>        STAGE 1: INITIAL DISCOVERY'' (description (stage1_task q m))
   \<and> prefix ''\<newline>        STAGE 2: DEEP MECHANISM ANALYSIS''
        (description (stage2_task q m dp))
   \<and> prefix ''\<newline>        STAGE 3: MARKET VALIDATION''
        (description (stage3_task q m k dp sd))
   \<and> prefix ''\<newline>        STAGE 4: SYNTHESIS'' (description (stage4_task q m k dp sd))"
  using stage_headings(1) [of q] stage_headings(2-4)
  by (simp add: research_crew_def stage1_task_def stage2_task_def stage3_task_def
      stage4_task_def)

text \<open>
  C2: when \<open>skip_deep\<close> is true the crew's agents are the five other agents, its tasks
  are Stage 1, Stage 3 and Stage 4, the Stage 2 task is not among them, Stage 3's context
  is [Stage 1], Stage 4's context is [Stage 1, Stage 3], and both contexts hold only tasks
  of the crew.  When the deep research agent is not one of the five other agents, it is
  neither in the crew's agent list nor the agent of any task of the crew.
\<close>

theorem skip_deep_omits_stage2:
  "agents (research_crew q m c d l k dp True) = [m, c, d, l, k]
   \<and> tasks (research_crew q m c d l k dp True)
       = [stage1_task q m, stage3_task q m k dp True, stage4_task q m k dp True]
   \<and> stage2_task q m dp \<notin> set (tasks (research_crew q m c d l k dp True))
   \<and> task_context (stage3_task q m k dp True) = [stage1_task q m]
   \<and> task_context (stage4_task q m k dp True) = [stage1_task q m, stage3_task q m k dp True]
   \<and> set (task_context (stage3_task q m k dp True))
       \<subseteq> set (tasks (research_crew q m c d l k dp True))
   \<and> set (task_context (stage4_task q m k dp True))
       \<subseteq> set (tasks (research_crew q m c d l k dp True))
   \<and> (dp \<notin> set [m, c, d, l, k] \<longrightarrow>
        dp \<notin> set (agents (research_crew q m c d l k dp True))
        \<and> dp \<notin> agent ` set (tasks (research_crew q m c d l k dp True)))"
  by (simp add: research_crew_tasks research_crew_agents task_contexts task_agents
      stage2_task_neq)

theorem skip_deep_omits_stage2_witness:
  "sample_agent ''deep'' \<notin> set [sample_agent ''master'', sample_agent ''clinical'',
     sample_agent ''drug'', sample_agent ''literature'', sample_agent ''market'']
   \<and> agents (sample_crew True)
       = [sample_agent ''master'', sample_agent ''clinical'', sample_agent ''drug'',
          sample_agent ''literature'', sample_agent ''market'']
   \<and> stage2_task ''asthma drugs for LAM'' (sample_agent ''master'') (sample_agent ''deep'')
       \<notin> set (tasks (sample_crew True))
   \<and> sample_agent ''deep'' \<notin> set (agents (sample_crew True))
   \<and> sample_agent ''deep'' \<notin> agent ` set (tasks (sample_crew True))"
  unfolding sample_crew_def
  using sample_agents_distinct
    skip_deep_omits_stage2 [of "''asthma drugs for LAM''" "sample_agent ''master''"
      "sample_agent ''clinical''" "sample_agent ''drug''" "sample_agent ''literature''"
      "sample_agent ''market''" "sample_agent ''deep''"]
  by blast

text \<open>
  C3: when the deep stage is included (\<open>skip_deep\<close> false) the crew's tasks are Stage 1
  to Stage 4, Stage 2's context is [Stage 1], Stage 3's context is [Stage 1, Stage 2] and
  Stage 4's context is [Stage 1, Stage 2, Stage 3].
\<close>

theorem deep_stage_contexts:
  "tasks (research_crew q m c d l k dp False)
     = [stage1_task q m, stage2_task q m dp, stage3_task q m k dp False,
        stage4_task q m k dp False]
   \<and> task_context (stage1_task q m) = []
   \<and> task_context (stage2_task q m dp) = [stage1_task q m]
   \<and> task_context (stage3_task q m k dp False) = [stage1_task q m, stage2_task q m dp]
   \<and> task_context (stage4_task q m k dp False)
       = [stage1_task q m, stage2_task q m dp, stage3_task q m k dp False]"
  by (simp add: research_crew_tasks task_contexts)


section \<open>What \<open>run_comprehensive_research_crew\<close> returns\<close>

text \<open>
  C8: the function returns a string whatever \<open>kickoff\<close> does on the crew; no
  exception escapes it.  When \<open>kickoff\<close> raises, the string is the error message.  When
  it returns an object with a \<open>raw\<close> attribute, the string is \<open>str\<close> of that attribute;
  otherwise, with an \<open>output\<close> attribute, \<open>str\<close> of that one; with neither, \<open>str\<close> of
  the object.  When that \<open>str\<close> raises, the string is the error message again.
\<close>

theorem run_returns_report_or_error:
  "let crew = research_crew q m c d l k dp sd;
       res = run_comprehensive_research_crew kickoff q m c d l k dp model sd
   in (\<exists>report. res = Inr report)
   \<and> (kickoff crew = Inl e \<longrightarrow> res = Inr (error_report e))
   \<and> (kickoff crew = Inr r \<and> raw_attr r = Some ob \<and> str_of ob = Inr s \<longrightarrow> res = Inr s)
   \<and> (kickoff crew = Inr r \<and> raw_attr r = None \<and> output_attr r = Some ob \<and> str_of ob = Inr s
        \<longrightarrow> res = Inr s)
   \<and> (kickoff crew = Inr r \<and> raw_attr r = None \<and> output_attr r = None
        \<and> str_of (self r) = Inr s \<longrightarrow> res = Inr s)
   \<and> (kickoff crew = Inr r \<and> raw_attr r = Some ob \<and> str_of ob = Inl e
        \<longrightarrow> res = Inr (error_report e))
   \<and> (kickoff crew = Inr r \<and> raw_attr r = None \<and> output_attr r = Some ob \<and> str_of ob = Inl e
        \<longrightarrow> res = Inr (error_report e))
   \<and> (kickoff crew = Inr r \<and> raw_attr r = None \<and> output_attr r = None
        \<and> str_of (self r) = Inl e \<longrightarrow> res = Inr (error_report e))"
  by (auto simp: run_comprehensive_research_crew_def try_except_def and_then_def
      split: sum.splits option.splits)

theorem run_returns_report_or_error_witness:
  "sample_run (\<lambda>_. Inl (Exception ''quota exceeded'')) True
     = Inr ''Error during research execution: quota exceeded\<newline>\<newline>Please try a more specific query.''
   \<and> sample_run (\<lambda>_. Inr \<lparr>raw_attr = Some (Object (Inr ''REPORT'')),
          output_attr = Some (Object (Inr ''OUT'')), self = Object (Inr ''SELF'')\<rparr>) True
       = Inr ''REPORT''
   \<and> sample_run (\<lambda>_. Inr \<lparr>raw_attr = None,
          output_attr = Some (Object (Inr ''OUT'')), self = Object (Inr ''SELF'')\<rparr>) False
       = Inr ''OUT''
   \<and> sample_run (\<lambda>_. Inr \<lparr>raw_attr = None, output_attr = None,
          self = Object (Inr ''SELF'')\<rparr>) False
       = Inr ''SELF''
   \<and> sample_run (\<lambda>_. Inr \<lparr>raw_attr = Some (Object (Inl (Exception ''bad str''))),
          output_attr = None, self = Object (Inr ''SELF'')\<rparr>) True
       = Inr ''Error during research execution: bad str\<newline>\<newline>Please try a more specific query.''"
  using
    run_returns_report_or_error [where kickoff = "\<lambda>_. Inl (Exception ''quota exceeded'')"
      and e = "Exception ''quota exceeded''" and sd = True and model = "()"
      and q = "''asthma drugs for LAM''" and m = "sample_agent ''master''"
      and c = "sample_agent ''clinical''" and d = "sample_agent ''drug''"
      and l = "sample_agent ''literature''" and k = "sample_agent ''market''"
      and dp = "sample_agent ''deep''"]
    run_returns_report_or_error [where kickoff = "\<lambda>_. Inr \<lparr>raw_attr = Some (Object (Inr ''REPORT'')),
          output_attr = Some (Object (Inr ''OUT'')), self = Object (Inr ''SELF'')\<rparr>"
      and r = "\<lparr>raw_attr = Some (Object (Inr ''REPORT'')),
          output_attr = Some (Object (Inr ''OUT'')), self = Object (Inr ''SELF'')\<rparr>"
      and ob = "Object (Inr ''REPORT'')" and s = "''REPORT''" and sd = True and model = "()"
      and q = "''asthma drugs for LAM''" and m = "sample_agent ''master''"
      and c = "sample_agent ''clinical''" and d = "sample_agent ''drug''"
      and l = "sample_agent ''literature''" and k = "sample_agent ''market''"
      and dp = "sample_agent ''deep''"]
    run_returns_report_or_error [where kickoff = "\<lambda>_. Inr \<lparr>raw_attr = None,
          output_attr = Some (Object (Inr ''OUT'')), self = Object (Inr ''SELF'')\<rparr>"
      and r = "\<lparr>raw_attr = None,
          output_attr = Some (Object (Inr ''OUT'')), self = Object (Inr ''SELF'')\<rparr>"
      and ob = "Object (Inr ''OUT'')" and s = "''OUT''" and sd = False and model = "()"
      and q = "''asthma drugs for LAM''" and m = "sample_agent ''master''"
      and c = "sample_agent ''clinical''" and d = "sample_agent ''drug''"
      and l = "sample_agent ''literature''" and k = "sample_agent ''market''"
      and dp = "sample_agent ''deep''"]
    run_returns_report_or_error [where kickoff = "\<lambda>_. Inr \<lparr>raw_attr = None, output_attr = None,
          self = Object (Inr ''SELF'')\<rparr>"
      and r = "\<lparr>raw_attr = None, output_attr = None, self = Object (Inr ''SELF'')\<rparr>"
      and s = "''SELF''" and sd = False and model = "()"
      and q = "''asthma drugs for LAM''" and m = "sample_agent ''master''"
      and c = "sample_agent ''clinical''" and d = "sample_agent ''drug''"
      and l = "sample_agent ''literature''" and k = "sample_agent ''market''"
      and dp = "sample_agent ''deep''"]
    run_returns_report_or_error [where kickoff = "\<lambda>_. Inr \<lparr>raw_attr = Some (Object (Inl (Exception ''bad str''))),
          output_attr = None, self = Object (Inr ''SELF'')\<rparr>"
      and r = "\<lparr>raw_attr = Some (Object (Inl (Exception ''bad str''))),
          output_attr = None, self = Object (Inr ''SELF'')\<rparr>"
      and ob = "Object (Inl (Exception ''bad str''))" and e = "Exception ''bad str''"
      and sd = True and model = "()"
      and q = "''asthma drugs for LAM''" and m = "sample_agent ''master''"
      and c = "sample_agent ''clinical''" and d = "sample_agent ''drug''"
      and l = "sample_agent ''literature''" and k = "sample_agent ''market''"
      and dp = "sample_agent ''deep''"]
  by (simp add: sample_run_def error_report_def Let_def)


section \<open>Rules for calls\<close>

subsection \<open>Outcome and trace\<close>

lemma outcome_simps [simp]:
  "outcome (io_return x) = Inr x"
  "outcome (io_lift r) = r"
  "outcome (io_call ev r) = r"
  "outcome (io_do ev) = Inr ()"
  "outcome (http_get w url hs tm) = requests_get w url hs tm"
  by (simp_all add: outcome_def io_return_def io_lift_def io_call_def io_do_def http_get_def)

lemma outcome_bind:
  "outcome (io_bind m f) = (case outcome m of Inl e \<Rightarrow> Inl e | Inr x \<Rightarrow> outcome (f x))"
  by (simp add: outcome_def io_bind_def split: prod.splits sum.splits)

lemma outcome_try:
  "outcome (io_try m h) = (case outcome m of Inl e \<Rightarrow> outcome (h e) | Inr x \<Rightarrow> Inr x)"
  by (simp add: outcome_def io_try_def split: prod.splits sum.splits)

lemma trace_simps [simp]:
  "trace (io_return x) = []"
  "trace (io_lift r) = []"
  "trace (io_call ev r) = [ev]"
  "trace (io_do ev) = [ev]"
  "trace (http_get w url hs tm) = [HttpGet url hs tm]"
  by (simp_all add: trace_def io_return_def io_lift_def io_call_def io_do_def http_get_def)

lemma trace_bind:
  "trace (io_bind m f) =
     trace m @ (case outcome m of Inl e \<Rightarrow> [] | Inr x \<Rightarrow> trace (f x))"
  by (simp add: trace_def outcome_def io_bind_def split: prod.splits sum.splits)

lemma trace_try:
  "trace (io_try m h) =
     trace m @ (case outcome m of Inl e \<Rightarrow> trace (h e) | Inr x \<Rightarrow> [])"
  by (simp add: trace_def outcome_def io_try_def split: prod.splits sum.splits)

subsection \<open>Calls that return\<close>

lemma returns_simps [simp]:
  "returns (io_return x)"
  "returns (io_do ev)"
  by (simp_all add: returns_def)

lemma returns_lift [simp]: "returns (io_lift r) = (\<exists>x. r = Inr x)"
  by (cases r) (simp_all add: returns_def)

lemma returns_bind:
  "returns m \<Longrightarrow> (\<And>x. returns (f x)) \<Longrightarrow> returns (io_bind m f)"
  by (fastforce simp: returns_def outcome_bind split: sum.splits)

lemma returns_try:
  "(\<And>e. returns (h e)) \<Longrightarrow> returns (io_try m h)"
  by (fastforce simp: returns_def outcome_try split: sum.splits)

lemma returns_log_then_return [simp]:
  "returns (io_bind (io_do ev) (\<lambda>_. io_return x))"
  by (simp add: returns_bind)

subsection \<open>What a call returns\<close>

lemma ensures_return [simp]: "ensures P (io_return x) = P x"
  by (simp add: ensures_def)

lemma ensures_lift: "(\<And>x. r = Inr x \<Longrightarrow> P x) \<Longrightarrow> ensures P (io_lift r)"
  by (simp add: ensures_def split: sum.splits)

lemma ensures_bind:
  "(\<And>x. outcome m = Inr x \<Longrightarrow> ensures P (f x)) \<Longrightarrow> ensures P (io_bind m f)"
  by (fastforce simp: ensures_def outcome_bind split: sum.splits)

lemma ensures_bind_post:
  "ensures Q m \<Longrightarrow> (\<And>x. Q x \<Longrightarrow> ensures P (f x)) \<Longrightarrow> ensures P (io_bind m f)"
  by (fastforce simp: ensures_def outcome_bind split: sum.splits)

lemma ensures_try:
  "ensures P m \<Longrightarrow> (\<And>e. ensures P (h e)) \<Longrightarrow> ensures P (io_try m h)"
  by (fastforce simp: ensures_def outcome_try split: sum.splits)

lemma ensures_option:
  "(x = None \<Longrightarrow> ensures P a) \<Longrightarrow> (\<And>y. x = Some y \<Longrightarrow> ensures P (b y)) \<Longrightarrow>
   ensures P (case x of None \<Rightarrow> a | Some y \<Rightarrow> b y)"
  by (cases x) simp_all

lemma ensures_if:
  "(c \<Longrightarrow> ensures P a) \<Longrightarrow> (\<not> c \<Longrightarrow> ensures P b) \<Longrightarrow> ensures P (if c then a else b)"
  by simp

lemma ensuresD: "ensures Q m \<Longrightarrow> outcome m = Inr x \<Longrightarrow> Q x"
  by (simp add: ensures_def)

lemma returns_bind_post:
  "returns m \<Longrightarrow> ensures Q m \<Longrightarrow> (\<And>x. Q x \<Longrightarrow> returns (f x)) \<Longrightarrow> returns (io_bind m f)"
  by (fastforce simp: returns_def ensures_def outcome_bind split: sum.splits)

lemmas ensures_intros =
  ensures_try ensures_bind ensures_option ensures_if


section \<open>The scrapers\<close>

subsection \<open>No scraper lets an exception escape\<close>

lemma scrape_clean_text_returns: "returns (scrape_clean_text w url)"
  unfolding scrape_clean_text_def by (rule returns_try) simp

lemma scrape_google_scholar_returns: "returns (scrape_google_scholar w q mx)"
  unfolding scrape_google_scholar_def by (rule returns_try) simp

lemma scrape_drugbank_info_returns: "returns (scrape_drugbank_info w n)"
  unfolding scrape_drugbank_info_def Let_def by (rule returns_try) simp

lemma scrape_bioRxiv_preprints_returns: "returns (scrape_bioRxiv_preprints w q mx)"
  unfolding scrape_bioRxiv_preprints_def by (rule returns_try) simp

lemma scrape_company_pipeline_returns: "returns (scrape_company_pipeline w c)"
  unfolding scrape_company_pipeline_def by (rule returns_try) simp

lemma scrape_orphanet_returns: "returns (scrape_orphanet w n)"
  unfolding scrape_orphanet_def by (rule returns_try) simp

lemma scrape_rare_diseases_info_returns: "returns (scrape_rare_diseases_info w n)"
  unfolding scrape_rare_diseases_info_def by (rule returns_try) simp

subsection \<open>The shape of what each scraper returns\<close>

lemma scrape_orphanet_shape:
  "ensures (\<lambda>d. (\<exists>p. d = [(''name'', PStr n), (''prevalence'', PStr p),
                           (''inheritance'', PStr ''Unknown''),
                           (''age_of_onset'', PStr ''Unknown''),
                           (''orphanet_url'', PStr (orphanet_url n))])
              \<or> (\<exists>msg. d = [(''name'', PStr n), (''error'', PStr msg)]))
     (scrape_orphanet w n)"
  unfolding scrape_orphanet_def Let_def
  by (intro ensures_intros; simp)

lemma drugbank_section_shape:
  "ensures (\<lambda>d. d = data \<or> (\<exists>t. d = AList.update key (PStr t) data \<and> length t \<le> 500))
     (drugbank_section w soup heading key data)"
  unfolding drugbank_section_def
  by (intro ensures_intros; simp) (metis length_take min.cobounded2)

lemma scrape_drugbank_info_shape:
  "ensures (\<lambda>r. case r of
              None \<Rightarrow> True
            | Some d \<Rightarrow>
                \<exists>m p. d = [(''drug_name'', PStr n), (''drugbank_url'', PStr (drugbank_url n)),
                            (''mechanism'', PStr m), (''pharmacodynamics'', PStr p),
                            (''indication'', PStr []), (''pharmacokinetics'', PStr [])]
                      \<and> length m \<le> 500 \<and> length p \<le> 500)
     (scrape_drugbank_info w n)"
  unfolding scrape_drugbank_info_def Let_def
  apply (intro ensures_intros; simp)
  apply (drule ensuresD [OF drugbank_section_shape])
  apply (drule ensuresD [OF drugbank_section_shape])
  apply auto
  done

lemma text_or_na_returns_string: "ensures (\<lambda>s. True) (text_or_na w elem)"
  by (simp add: ensures_def split: sum.splits)

lemma biorxiv_entry_shape:
  "ensures (\<lambda>d. \<exists>t a dt doi u. d = [(''title'', PStr t), (''authors'', PStr a),
                    (''date'', PStr dt), (''doi'', PStr doi), (''url'', PStr u)])
     (biorxiv_entry w article)"
  unfolding biorxiv_entry_def
  by (intro ensures_intros; simp)

lemma biorxiv_loop_shape:
  "list_all P results \<Longrightarrow> (\<And>a. ensures P (biorxiv_entry w a)) \<Longrightarrow>
   ensures (list_all P) (biorxiv_loop w articles results)"
proof (induction articles arbitrary: results)
  case Nil
  then show ?case by simp
next
  case (Cons a articles)
  show ?case
    unfolding biorxiv_loop.simps
  proof (rule ensures_bind_post [OF Cons.prems(2)])
    fix entry assume "P entry"
    with Cons.prems(1) have "list_all P (results @ [entry])" by simp
    then show "ensures (list_all P) (biorxiv_loop w articles (results @ [entry]))"
      by (rule Cons.IH) (rule Cons.prems(2))
  qed
qed

lemma scrape_bioRxiv_preprints_shape:
  "ensures (list_all (\<lambda>d. \<exists>t a dt doi u. d = [(''title'', PStr t), (''authors'', PStr a),
                    (''date'', PStr dt), (''doi'', PStr doi), (''url'', PStr u)]))
     (scrape_bioRxiv_preprints w q mx)"
  unfolding scrape_bioRxiv_preprints_def Let_def
  by (intro ensures_intros biorxiv_loop_shape biorxiv_entry_shape; simp)

lemma scrape_company_pipeline_shape:
  "ensures (\<lambda>d. (\<exists>msg. d = [(''company'', PStr c), (''error'', PStr msg)])
              \<or> (\<exists>u p. d = [(''company'', PStr c), (''url'', PStr u), (''content'', PStr p)]
                        \<and> length p \<le> 2000))
     (scrape_company_pipeline w c)"
  unfolding scrape_company_pipeline_def Let_def
  by (intro ensures_intros; simp split: option.splits)

lemma gard_search_shape:
  "ensures (\<lambda>r. case r of
              None \<Rightarrow> True
            | Some d \<Rightarrow> \<exists>nm gid syn u. d = [(''name'', nm), (''gard_id'', gid),
                                            (''synonyms'', syn), (''url'', PStr u)])
     (gard_search w n)"
  unfolding gard_search_def Let_def
  by (intro ensures_intros; simp)

lemma scrape_rare_diseases_info_shape:
  "ensures (\<lambda>d. (\<exists>msg. d = [(''name'', PStr n), (''error'', PStr msg)])
              \<or> (\<exists>t. d = [(''name'', PStr n), (''content'', PStr t),
                           (''url'', PStr (gard_url n))] \<and> length t \<le> 1000)
              \<or> (\<exists>nm gid syn u. d = [(''name'', nm), (''gard_id'', gid),
                                      (''synonyms'', syn), (''url'', PStr u)]))
     (scrape_rare_diseases_info w n)"
  unfolding scrape_rare_diseases_info_def Let_def
  apply (intro ensures_intros; simp)
  apply (auto dest!: ensuresD [OF gard_search_shape] split: if_splits)
  done







section \<open>The tools\<close>

lemma extract_webpage_content_returns: "returns (extract_webpage_content w url)"
  unfolding extract_webpage_content_def
  by (intro returns_bind scrape_clean_text_returns) simp

lemma search_orphanet_rare_disease_returns: "returns (search_orphanet_rare_disease w n)"
  unfolding search_orphanet_rare_disease_def
  by (rule returns_bind_post [OF scrape_orphanet_returns scrape_orphanet_shape])
     (auto simp: has_key_def py_item_def intro!: returns_bind)

lemma get_drug_mechanism_details_returns: "returns (get_drug_mechanism_details w n)"
  unfolding get_drug_mechanism_details_def
  by (rule returns_bind_post [OF scrape_drugbank_info_returns scrape_drugbank_info_shape])
     (auto simp: py_item_def intro!: returns_bind split: option.splits)

lemma scrape_company_pipeline_info_returns: "returns (scrape_company_pipeline_info w c)"
  unfolding scrape_company_pipeline_info_def
  by (rule returns_bind_post [OF scrape_company_pipeline_returns scrape_company_pipeline_shape])
     (auto simp: has_key_def py_item_def intro!: returns_bind)

lemma format_preprint_returns:
  "returns (format_preprint w i [(''title'', PStr t), (''authors'', PStr a),
       (''date'', PStr dt), (''doi'', PStr doi), (''url'', PStr u)])"
  unfolding format_preprint_def
  by (intro returns_bind; simp add: py_item_def)

lemma format_preprints_returns:
  "list_all (\<lambda>d. \<exists>t a dt doi u. d = [(''title'', PStr t), (''authors'', PStr a),
       (''date'', PStr dt), (''doi'', PStr doi), (''url'', PStr u)]) ds \<Longrightarrow>
   returns (format_preprints w i ds result)"
proof (induction ds arbitrary: i result)
  case Nil
  then show ?case by simp
next
  case (Cons d ds)
  from Cons.prems obtain t a dt doi u where
    d: "d = [(''title'', PStr t), (''authors'', PStr a),
       (''date'', PStr dt), (''doi'', PStr doi), (''url'', PStr u)]"
    by auto
  from Cons.prems have rest: "returns (format_preprints w (Suc i) ds r)" for r
    by (intro Cons.IH) simp
  show ?case
    unfolding format_preprints.simps d
    by (rule returns_bind [OF format_preprint_returns rest])
qed

lemma search_biorxiv_preprints_returns: "returns (search_biorxiv_preprints w q)"
  unfolding search_biorxiv_preprints_def
proof (rule returns_bind_post
        [OF scrape_bioRxiv_preprints_returns scrape_bioRxiv_preprints_shape])
  fix ds :: "pydict list"
  assume "list_all (\<lambda>d. \<exists>t a dt doi u. d = [(''title'', PStr t), (''authors'', PStr a),
       (''date'', PStr dt), (''doi'', PStr doi), (''url'', PStr u)]) ds"
  then show "returns (if ds = [] then io_return (''No preprints found for: '' @ q)
     else format_preprints w 1 ds
            (''Latest bioRxiv Preprints for '' @ [CHR 0x27] @ q @ [CHR 0x27]
             @ '':\<newline>\<newline>''))"
    by (simp add: format_preprints_returns)
qed


section \<open>Orphanet: inheritance and age of onset\<close>

text \<open>
  C9: for every disease name and every behaviour of the libraries,
  \<open>search_orphanet_rare_disease\<close> returns a string, and the string is either the error
  line \<open>Could not find ... in Orphanet: ...\<close> or the report, in which the inheritance and
  the age of onset read \<open>Unknown\<close>; \<open>scrape_orphanet\<close> returns either the error
  dictionary or the dictionary it initialised, in which only the prevalence may differ
  from \<open>Unknown\<close>.
\<close>

theorem orphanet_inheritance_and_onset_unknown:
  "returns (search_orphanet_rare_disease w n)
   \<and> ensures (\<lambda>s. (\<exists>msg. s = ''Could not find '' @ n @ '' in Orphanet: '' @ msg)
                 \<or> (\<exists>p. s = ''Orphanet Data for '' @ n @ '':\<newline>\<newline>''
                           @ ''Prevalence: '' @ p @ ''\<newline>''
                           @ ''Inheritance: Unknown\<newline>''
                           @ ''Age of Onset: Unknown\<newline>''
                           @ ''Source: '' @ orphanet_url n @ ''\<newline>''))
         (search_orphanet_rare_disease w n)
   \<and> returns (scrape_orphanet w n)
   \<and> ensures (\<lambda>d. (\<exists>msg. d = [(''name'', PStr n), (''error'', PStr msg)])
                 \<or> (\<exists>p. d = [(''name'', PStr n), (''prevalence'', PStr p),
                              (''inheritance'', PStr ''Unknown''),
                              (''age_of_onset'', PStr ''Unknown''),
                              (''orphanet_url'', PStr (orphanet_url n))]))
         (scrape_orphanet w n)"
proof -
  have tool: "ensures (\<lambda>s. (\<exists>msg. s = ''Could not find '' @ n @ '' in Orphanet: '' @ msg)
                 \<or> (\<exists>p. s = ''Orphanet Data for '' @ n @ '':\<newline>\<newline>''
                           @ ''Prevalence: '' @ p @ ''\<newline>''
                           @ ''Inheritance: Unknown\<newline>''
                           @ ''Age of Onset: Unknown\<newline>''
                           @ ''Source: '' @ orphanet_url n @ ''\<newline>''))
         (search_orphanet_rare_disease w n)"
    unfolding search_orphanet_rare_disease_def
    by (rule ensures_bind_post [OF scrape_orphanet_shape], elim disjE exE)
       (simp_all add: has_key_def py_item_def ensures_def outcome_bind)
  have scraper: "ensures (\<lambda>d. (\<exists>msg. d = [(''name'', PStr n), (''error'', PStr msg)])
                 \<or> (\<exists>p. d = [(''name'', PStr n), (''prevalence'', PStr p),
                              (''inheritance'', PStr ''Unknown''),
                              (''age_of_onset'', PStr ''Unknown''),
                              (''orphanet_url'', PStr (orphanet_url n))]))
         (scrape_orphanet w n)"
    using scrape_orphanet_shape [of n w] by (simp add: ensures_def disj_commute)
  show ?thesis
    using search_orphanet_rare_disease_returns scrape_orphanet_returns tool scraper
    by blast
qed

text \<open>Both kinds of result occur.\<close>

lemma orphanet_examples:
  "outcome (search_orphanet_rare_disease online ''LAM'') =
     Inr (''Orphanet Data for LAM:\<newline>\<newline>''
          @ ''Prevalence: Prevalence: 1-9 / 100 000\<newline>''
          @ ''Inheritance: Unknown\<newline>''
          @ ''Age of Onset: Unknown\<newline>''
          @ ''Source: '' @ orphanet_url ''LAM'' @ ''\<newline>'')"
  "outcome (search_orphanet_rare_disease offline ''LAM'') =
     Inr ''Could not find LAM in Orphanet: Connection refused''"
  by (simp_all add: search_orphanet_rare_disease_def scrape_orphanet_def online_def
      offline_def page_def outcome_bind outcome_try has_key_def py_item_def Let_def)


section \<open>Truncation of scraped text\<close>









text \<open>The limits are reached: a page of 3001 characters is cut to 3000, a DrugBank text
  of 501 characters to 500.\<close>

lemma lower_examples:
  "lower ''Aspirin X'' = ''aspirin x''"
  "drugbank_url ''Aspirin X'' = ''https://go.drugbank.com/drugs/aspirin_x''"
  "gard_url ''Cystic Fibrosis'' = ''https://rarediseases.info.nih.gov/diseases/cystic-fibrosis''"
  "lower [CHR 0xC0, CHR 0xD7, CHR 0xDE, CHR 0xDF] = [CHR 0xE0, CHR 0xD7, CHR 0xFE, CHR 0xDF]"
  by code_simp+

lemma truncation_examples:
  "outcome (extract_webpage_content
       (online\<lparr>trafilatura_extract := (\<lambda>doc flags. Inr (Some (replicate 3001 CHR ''a'')))\<rparr>)
       ''https://example.org'') =
     Inr (''Content from https://example.org:\<newline>\<newline>'' @ replicate 3000 CHR ''a'')"
  "outcome (scrape_drugbank_info
       (online\<lparr>get_text := (\<lambda>el strip. Inr (replicate 501 CHR ''a''))\<rparr>) ''aspirin'') =
     Inr (Some [(''drug_name'', PStr ''aspirin''),
                (''drugbank_url'', PStr ''https://go.drugbank.com/drugs/aspirin''),
                (''mechanism'', PStr (replicate 500 CHR ''a'')),
                (''pharmacodynamics'', PStr (replicate 500 CHR ''a'')),
                (''indication'', PStr []), (''pharmacokinetics'', PStr [])])"
  by (simp_all add: extract_webpage_content_def scrape_clean_text_def
      scrape_drugbank_info_def drugbank_section_def drugbank_url_def lower_def lower_char_def
      replace_char_def online_def offline_def page_def outcome_bind outcome_try Let_def)


section \<open>Failure handling\<close>

text \<open>
  C7, as stated: every scraper turns a failure into an error string or a dictionary with
  an \<open>error\<close> key.  It fails for the three scrapers whose result is not a dictionary or
  a string: with every request refused, \<open>scrape_drugbank_info\<close> returns \<open>None\<close>, and
  \<open>scrape_google_scholar\<close> and \<open>scrape_bioRxiv_preprints\<close> return the empty list.
\<close>

theorem error_result_counterexample:
  "outcome (scrape_drugbank_info offline ''aspirin'') = Inr None
   \<and> outcome (scrape_google_scholar offline ''aspirin rare disease repurposing'' 10) = Inr []
   \<and> outcome (scrape_bioRxiv_preprints offline ''aspirin'' 5) = Inr []"
  by (simp add: scrape_drugbank_info_def scrape_google_scholar_def
      scrape_bioRxiv_preprints_def offline_def outcome_bind outcome_try Let_def)

text \<open>
  Two tools join values that come from outside, after the scraper's \<open>try\<close> has ended:
  \<open>search_gard_rare_disease\<close> joins the \<open>synonyms\<close> of the search API's first hit, and
  \<open>search_google_scholar_papers\<close> slices and joins a publication's authors.  When such a
  value is \<open>None\<close>, the \<open>TypeError\<close> escapes the tool.
\<close>

lemma search_gard_rare_disease_raises:
  "outcome (search_gard_rare_disease gard_api_world ''LAM'')
     = Inl (Exception ''can only join an iterable'')"
  by (simp add: search_gard_rare_disease_def scrape_rare_diseases_info_def gard_search_def
      gard_api_world_def offline_def page_def gard_url_def gard_search_api_def lower_def
      lower_char_def replace_char_def outcome_bind outcome_try Let_def has_key_def py_item_def)

lemma search_google_scholar_papers_raises:
  "outcome (search_google_scholar_papers scholar_none_world ''LAM'')
     = Inl (Exception ([CHR 0x27] @ ''NoneType'' @ [CHR 0x27] @ '' object is not subscriptable''))"
  by (simp add: search_google_scholar_papers_def scrape_google_scholar_def scholar_entry_def
      bib_field_def format_paper_def scholar_none_world_def online_def offline_def
      outcome_bind outcome_try py_item_def)

text \<open>
  C7, amended: for every input and every behaviour of the libraries, no scraper function
  lets an exception escape, and neither do the tools \<open>extract_webpage_content\<close>,
  \<open>get_drug_mechanism_details\<close>, \<open>search_biorxiv_preprints\<close>,
  \<open>scrape_company_pipeline_info\<close> and \<open>search_orphanet_rare_disease\<close>.  When its
  first request raises, \<open>scrape_clean_text\<close> returns the string \<open>Error: ...\<close>,
  \<open>scrape_company_pipeline\<close>, \<open>scrape_orphanet\<close> and \<open>scrape_rare_diseases_info\<close>
  return a dictionary whose \<open>error\<close> is the exception's message,
  \<open>scrape_drugbank_info\<close> returns \<open>None\<close>, and \<open>scrape_google_scholar\<close> and
  \<open>scrape_bioRxiv_preprints\<close> return the empty list.
\<close>

theorem no_scraper_raises:
  "returns (scrape_clean_text w url)
   \<and> returns (scrape_google_scholar w query max_results)
   \<and> returns (scrape_drugbank_info w drug)
   \<and> returns (scrape_bioRxiv_preprints w query max_results)
   \<and> returns (scrape_company_pipeline w company)
   \<and> returns (scrape_orphanet w disease)
   \<and> returns (scrape_rare_diseases_info w disease)
   \<and> returns (extract_webpage_content w url)
   \<and> returns (get_drug_mechanism_details w drug)
   \<and> returns (search_biorxiv_preprints w query)
   \<and> returns (scrape_company_pipeline_info w company)
   \<and> returns (search_orphanet_rare_disease w disease)
   \<and> (fetch_url w url = Inl e \<longrightarrow>
        outcome (scrape_clean_text w url) = Inr (''Error: '' @ message e))
   \<and> (search_pubs w query = Inl e \<longrightarrow>
        outcome (scrape_google_scholar w query max_results) = Inr [])
   \<and> (requests_get w (drugbank_url drug) None 10 = Inl e \<longrightarrow>
        outcome (scrape_drugbank_info w drug) = Inr None)
   \<and> (requests_get w (biorxiv_url w query) (Some ua_headers) 10 = Inl e \<longrightarrow>
        outcome (scrape_bioRxiv_preprints w query max_results) = Inr [])
   \<and> (requests_get w (pipeline_search_url w company) (Some ua_headers) 10 = Inl e \<longrightarrow>
        outcome (scrape_company_pipeline w company)
          = Inr [(''company'', PStr company), (''error'', PStr (message e))])
   \<and> (requests_get w (orphanet_url disease) (Some ua_headers) 15 = Inl e \<longrightarrow>
        outcome (scrape_orphanet w disease)
          = Inr [(''name'', PStr disease), (''error'', PStr (message e))])
   \<and> (requests_get w (gard_url disease) (Some ua_headers) 15 = Inl e \<longrightarrow>
        outcome (scrape_rare_diseases_info w disease)
          = Inr [(''name'', PStr disease), (''error'', PStr (message e))])"
proof -
  have failures:
    "fetch_url w url = Inl e \<longrightarrow>
        outcome (scrape_clean_text w url) = Inr (''Error: '' @ message e)"
    "search_pubs w query = Inl e \<longrightarrow>
        outcome (scrape_google_scholar w query max_results) = Inr []"
    "requests_get w (drugbank_url drug) None 10 = Inl e \<longrightarrow>
        outcome (scrape_drugbank_info w drug) = Inr None"
    "requests_get w (biorxiv_url w query) (Some ua_headers) 10 = Inl e \<longrightarrow>
        outcome (scrape_bioRxiv_preprints w query max_results) = Inr []"
    "requests_get w (pipeline_search_url w company) (Some ua_headers) 10 = Inl e \<longrightarrow>
        outcome (scrape_company_pipeline w company)
          = Inr [(''company'', PStr company), (''error'', PStr (message e))]"
    "requests_get w (orphanet_url disease) (Some ua_headers) 15 = Inl e \<longrightarrow>
        outcome (scrape_orphanet w disease)
          = Inr [(''name'', PStr disease), (''error'', PStr (message e))]"
    "requests_get w (gard_url disease) (Some ua_headers) 15 = Inl e \<longrightarrow>
        outcome (scrape_rare_diseases_info w disease)
          = Inr [(''name'', PStr disease), (''error'', PStr (message e))]"
    by (simp_all add: scrape_clean_text_def scrape_google_scholar_def scrape_drugbank_info_def
        scrape_bioRxiv_preprints_def scrape_company_pipeline_def scrape_orphanet_def
        scrape_rare_diseases_info_def outcome_bind outcome_try Let_def)
  show ?thesis
    by (intro conjI scrape_clean_text_returns scrape_google_scholar_returns
      scrape_drugbank_info_returns scrape_bioRxiv_preprints_returns
      scrape_company_pipeline_returns scrape_orphanet_returns
      scrape_rare_diseases_info_returns extract_webpage_content_returns
      get_drug_mechanism_details_returns search_biorxiv_preprints_returns
      scrape_company_pipeline_info_returns search_orphanet_rare_disease_returns failures)
qed

theorem no_scraper_raises_witness:
  "fetch_url offline ''https://example.org'' = Inl (Exception ''Connection refused'')
   \<and> outcome (scrape_clean_text offline ''https://example.org'')
       = Inr ''Error: Connection refused''
   \<and> search_pubs offline ''aspirin'' = Inl (Exception ''Cannot Fetch from Google Scholar.'')
   \<and> outcome (scrape_google_scholar offline ''aspirin'' 8) = Inr []
   \<and> requests_get offline (drugbank_url ''aspirin'') None 10
       = Inl (Exception ''Connection refused'')
   \<and> outcome (scrape_drugbank_info offline ''aspirin'') = Inr None
   \<and> outcome (scrape_bioRxiv_preprints offline ''aspirin'' 8) = Inr []
   \<and> outcome (scrape_company_pipeline offline ''Pfizer'')
       = Inr [(''company'', PStr ''Pfizer''), (''error'', PStr ''Connection refused'')]
   \<and> outcome (scrape_orphanet offline ''LAM'')
       = Inr [(''name'', PStr ''LAM''), (''error'', PStr ''Connection refused'')]
   \<and> outcome (scrape_rare_diseases_info offline ''LAM'')
       = Inr [(''name'', PStr ''LAM''), (''error'', PStr ''Connection refused'')]
   \<and> returns (search_orphanet_rare_disease offline ''LAM'')
   \<and> returns (get_drug_mechanism_details offline ''aspirin'')"
proof -
  have refused:
    "fetch_url offline u = Inl (Exception ''Connection refused'')"
    "search_pubs offline q = Inl (Exception ''Cannot Fetch from Google Scholar.'')"
    "requests_get offline u hs tm = Inl (Exception ''Connection refused'')" for u q hs tm
    by (simp_all add: offline_def)
  show ?thesis
    using no_scraper_raises [of offline "''https://example.org''" "''aspirin''" 8 "''aspirin''"
        "''Pfizer''" "''LAM''" "Exception ''Connection refused''"]
      no_scraper_raises [of offline "''https://example.org''" "''aspirin''" 8 "''aspirin''"
        "''Pfizer''" "''LAM''" "Exception ''Cannot Fetch from Google Scholar.''"]
    by (simp add: refused)
qed


section \<open>Flat dictionaries\<close>

text \<open>
  C6, as stated: every value of every returned dictionary is a scalar string or number.
  It fails for \<open>scrape_google_scholar\<close>: a publication without an author gets the
  default \<open>[]\<close>, a list, under \<open>authors\<close>.
\<close>

theorem flat_dictionary_counterexample:
  "outcome (scrape_google_scholar online ''LAM'' 8)
     = Inr [[(''title'', PStr ''Sirolimus in LAM''), (''authors'', PList []),
             (''year'', PStr ''N/A''), (''venue'', PStr ''N/A''), (''citations'', PInt 0),
             (''url'', PStr ''N/A''), (''abstract'', PStr ''N/A'')]]
   \<and> \<not> flat [(''title'', PStr ''Sirolimus in LAM''), (''authors'', PList []),
             (''year'', PStr ''N/A''), (''venue'', PStr ''N/A''), (''citations'', PInt 0),
             (''url'', PStr ''N/A''), (''abstract'', PStr ''N/A'')]"
  by (simp add: scrape_google_scholar_def scholar_entry_def bib_field_def online_def
      offline_def sample_pub_def outcome_bind outcome_try flat_def)

text \<open>The same holds for the \<open>synonyms\<close> of a dictionary that
  \<open>scrape_rare_diseases_info\<close> builds from the search API.\<close>

lemma str_int_example: "str_int 7137 = ''7137''" "str_int (- 42) = ''-42''"
  by (simp_all add: str_int_def str_nat.simps)

lemma gard_api_example:
  "outcome (scrape_rare_diseases_info gard_api_world ''LAM'')
     = Inr [(''name'', PStr ''LAM''), (''gard_id'', PInt 7137), (''synonyms'', PNone),
            (''url'', PStr ''https://rarediseases.info.nih.gov/diseases/7137'')]"
  by (simp add: scrape_rare_diseases_info_def gard_search_def gard_api_world_def offline_def
      page_def gard_url_def gard_search_api_def lower_def lower_char_def replace_char_def
      outcome_bind outcome_try Let_def str_int_example)

lemma all_strings_flat: "all_strings d \<Longrightarrow> flat d"
  unfolding all_strings_def flat_def list_all_iff
proof
  fix kv assume "\<forall>kv\<in>set d. is_str (snd kv)" and "kv \<in> set d"
  then have "is_str (snd kv)" by simp
  then show "is_scalar (snd kv)" by (cases "snd kv") simp_all
qed

text \<open>
  C6, amended: for every input and every behaviour of the libraries, every dictionary
  returned by \<open>scrape_orphanet\<close>, \<open>scrape_drugbank_info\<close>, \<open>scrape_bioRxiv_preprints\<close>
  and \<open>scrape_company_pipeline\<close>, and every dictionary of \<open>scrape_rare_diseases_info\<close>
  that has no \<open>gard_id\<close> key, maps each key to a string, so it is flat.  (The dictionaries
  of \<open>scrape_google_scholar\<close> and those with a \<open>gard_id\<close> hold the values the library or
  the search API supplied.)
\<close>

theorem dictionaries_of_strings:
  "ensures (\<lambda>d. all_strings d \<and> flat d) (scrape_orphanet w disease)
   \<and> ensures (\<lambda>r. case r of None \<Rightarrow> True | Some d \<Rightarrow> all_strings d \<and> flat d)
         (scrape_drugbank_info w drug)
   \<and> ensures (list_all (\<lambda>d. all_strings d \<and> flat d))
         (scrape_bioRxiv_preprints w query max_results)
   \<and> ensures (\<lambda>d. all_strings d \<and> flat d) (scrape_company_pipeline w company)
   \<and> ensures (\<lambda>d. all_strings d \<and> flat d \<or> has_key ''gard_id'' d)
         (scrape_rare_diseases_info w disease)
   \<and> returns (scrape_orphanet w disease)
   \<and> returns (scrape_drugbank_info w drug)
   \<and> returns (scrape_bioRxiv_preprints w query max_results)
   \<and> returns (scrape_company_pipeline w company)
   \<and> returns (scrape_rare_diseases_info w disease)"
proof -
  have orphanet: "ensures (\<lambda>d. all_strings d \<and> flat d) (scrape_orphanet w disease)"
    using scrape_orphanet_shape [of disease w]
    by (auto simp: ensures_def all_strings_def flat_def split: sum.splits)
  have drugbank:
    "ensures (\<lambda>r. case r of None \<Rightarrow> True | Some d \<Rightarrow> all_strings d \<and> flat d)
       (scrape_drugbank_info w drug)"
    using scrape_drugbank_info_shape [of drug w]
    by (auto simp: ensures_def all_strings_def flat_def split: sum.splits option.splits)
  have entry: "all_strings d \<and> flat d"
    if "\<exists>t a dt doi u. d = [(''title'', PStr t), (''authors'', PStr a),
          (''date'', PStr dt), (''doi'', PStr doi), (''url'', PStr u)]" for d
    using that by (auto simp: all_strings_def flat_def)
  have biorxiv:
    "ensures (list_all (\<lambda>d. all_strings d \<and> flat d))
       (scrape_bioRxiv_preprints w query max_results)"
    using scrape_bioRxiv_preprints_shape [of w query max_results] entry
    by (auto simp: ensures_def list_all_iff split: sum.splits)
  have company: "ensures (\<lambda>d. all_strings d \<and> flat d) (scrape_company_pipeline w company)"
    using scrape_company_pipeline_shape [of company w]
    by (auto simp: ensures_def all_strings_def flat_def split: sum.splits)
  have gard:
    "ensures (\<lambda>d. all_strings d \<and> flat d \<or> has_key ''gard_id'' d)
       (scrape_rare_diseases_info w disease)"
    using scrape_rare_diseases_info_shape [of disease w]
    by (auto simp: ensures_def all_strings_def flat_def has_key_def split: sum.splits)
  show ?thesis
    by (intro conjI orphanet drugbank biorxiv company gard scrape_orphanet_returns
        scrape_drugbank_info_returns scrape_bioRxiv_preprints_returns
        scrape_company_pipeline_returns scrape_rare_diseases_info_returns)
qed


section \<open>Requests and sleeps\<close>

lemma actions_simps [simp]:
  "actions (io_return x) = []"
  "actions (io_lift r) = []"
  "actions (io_call ev r) = (if is_log ev then [] else [ev])"
  "actions (io_do ev) = (if is_log ev then [] else [ev])"
  "actions (http_get w url hs tm) = [HttpGet url hs tm]"
  by (simp_all add: actions_def)

lemma actions_bind:
  "actions (io_bind m f) =
     actions m @ (case outcome m of Inl e \<Rightarrow> [] | Inr x \<Rightarrow> actions (f x))"
  by (simp add: actions_def trace_bind split: sum.splits)

lemma actions_try:
  "actions (io_try m h) =
     actions m @ (case outcome m of Inl e \<Rightarrow> actions (h e) | Inr x \<Rightarrow> [])"
  by (simp add: actions_def trace_try split: sum.splits)

lemma quiet_simps [simp]:
  "quiet (io_return x)"
  "quiet (io_lift r)"
  "quiet (io_do (LogError s))"
  "quiet (io_do (LogWarning s))"
  by (simp_all add: quiet_def)

lemma quiet_bind: "quiet m \<Longrightarrow> (\<And>x. quiet (f x)) \<Longrightarrow> quiet (io_bind m f)"
  by (simp add: quiet_def actions_bind split: sum.splits)

lemma quiet_try: "quiet m \<Longrightarrow> (\<And>e. quiet (h e)) \<Longrightarrow> quiet (io_try m h)"
  by (simp add: quiet_def actions_try split: sum.splits)

lemma quiet_option:
  "quiet a \<Longrightarrow> (\<And>y. quiet (b y)) \<Longrightarrow> quiet (case x of None \<Rightarrow> a | Some y \<Rightarrow> b y)"
  by (cases x) simp_all

lemma quiet_if: "quiet a \<Longrightarrow> quiet b \<Longrightarrow> quiet (if c then a else b)"
  by simp

lemmas quiet_intros = quiet_bind quiet_try quiet_option quiet_if

text \<open>A \<open>try\<close> whose body opens with one recorded call and is quiet afterwards, and
  whose handler is quiet.\<close>

lemma one_call:
  assumes "\<not> is_log ev" and "\<And>x. quiet (f x)" and "\<And>e. quiet (h e)"
  shows "actions (io_try (io_bind (io_call ev r) f) h) = [ev]"
  using assms by (simp add: actions_try actions_bind quiet_def split: sum.splits)

lemma one_request:
  assumes "\<And>x. quiet (f x)" and "\<And>e. quiet (h e)"
  shows "actions (io_try (io_bind (http_get w url hs tm) f) h) = [HttpGet url hs tm]"
  using assms by (simp add: actions_try actions_bind quiet_def split: sum.splits)

lemma scrape_clean_text_actions: "actions (scrape_clean_text w url) = [FetchUrl url]"
  unfolding scrape_clean_text_def
  by (rule one_call) (simp, (intro quiet_intros; simp)+)

lemma scrape_orphanet_actions:
  "actions (scrape_orphanet w n) = [HttpGet (orphanet_url n) (Some ua_headers) 15]"
  unfolding scrape_orphanet_def Let_def
  by (rule one_request) (intro quiet_intros; simp)+

lemma drugbank_section_quiet: "quiet (drugbank_section w soup heading key data)"
  unfolding drugbank_section_def by (intro quiet_intros; simp)

lemma scrape_drugbank_info_actions:
  "actions (scrape_drugbank_info w n) = [HttpGet (drugbank_url n) None 10]"
  unfolding scrape_drugbank_info_def Let_def
  by (rule one_request) (intro quiet_intros drugbank_section_quiet; simp)+

lemma text_or_na_quiet: "quiet (text_or_na w elem)"
  unfolding text_or_na_def by (intro quiet_intros; simp)

lemma article_url_quiet: "quiet (article_url w article)"
  unfolding article_url_def by (intro quiet_intros; simp)

lemma biorxiv_entry_quiet: "quiet (biorxiv_entry w article)"
  unfolding biorxiv_entry_def
  by (intro quiet_intros text_or_na_quiet article_url_quiet; simp)

lemma biorxiv_loop_quiet: "quiet (biorxiv_loop w articles results)"
  by (induction articles arbitrary: results)
     (simp_all add: quiet_bind biorxiv_entry_quiet)

lemma scrape_bioRxiv_preprints_actions:
  "actions (scrape_bioRxiv_preprints w q mx) = [HttpGet (biorxiv_url w q) (Some ua_headers) 10]"
  unfolding scrape_bioRxiv_preprints_def Let_def
  by (rule one_request) (intro quiet_intros biorxiv_loop_quiet; simp)+

lemma request_then_quiet:
  assumes "\<And>x. quiet (f x)"
  shows "actions (io_bind (http_get w url hs tm) f) = [HttpGet url hs tm]"
  using assms by (simp add: actions_bind quiet_def split: sum.splits)

lemma gard_search_actions:
  "actions (gard_search w n) = [HttpGet (gard_search_api n) (Some ua_headers) 15]"
  unfolding gard_search_def Let_def
  by (rule request_then_quiet) (intro quiet_intros; simp)+

lemma scrape_rare_diseases_info_actions:
  "actions (scrape_rare_diseases_info w n) =
     HttpGet (gard_url n) (Some ua_headers) 15 #
     (case requests_get w (gard_url n) (Some ua_headers) 15 of
        Inl e \<Rightarrow> []
      | Inr response \<Rightarrow>
          if status_code response = 404
          then [HttpGet (gard_search_api n) (Some ua_headers) 15] else [])"
  unfolding scrape_rare_diseases_info_def Let_def
  by (simp add: actions_try actions_bind gard_search_actions
      split: sum.splits option.splits)

lemma gard_targets_differ: "gard_url n \<noteq> gard_search_api n"
  by (simp add: gard_url_def gard_search_api_def)

lemma scrape_company_pipeline_actions:
  "actions (scrape_company_pipeline w c) =
     HttpGet (pipeline_search_url w c) (Some ua_headers) 10 #
     (case and_then (requests_get w (pipeline_search_url w c) (Some ua_headers) 10) (\<lambda>response.
           and_then (beautiful_soup w (content response)) (\<lambda>soup.
           and_then (find_tag_class w soup ''a'' ''result__url'') (\<lambda>first_result.
           case first_result of
             None \<Rightarrow> Inr []
           | Some first \<Rightarrow> attr_get w first ''href'' []))) of
        Inl e \<Rightarrow> []
      | Inr pipeline_url \<Rightarrow>
          if pipeline_url \<noteq> [] then [HttpGet pipeline_url (Some ua_headers) 10] else [])"
  unfolding scrape_company_pipeline_def Let_def
  by (simp add: actions_try actions_bind outcome_bind and_then_def
      split: sum.splits option.splits)

subsection \<open>Google Scholar\<close>

lemma bib_field_quiet: "quiet (bib_field filled key dflt)"
  unfolding bib_field_def by (intro quiet_intros; simp)

text \<open>Whether filling a publication succeeds does not depend on the results so far.\<close>

lemma scholar_entry_returns_any:
  "returns (scholar_entry w pub results) = returns (scholar_entry w pub [])"
  unfolding scholar_entry_def
  by (simp add: returns_def outcome_bind split: sum.splits)

lemma scholar_entry_actions:
  "actions (scholar_entry w pub results) =
     FillPub pub # (if returns (scholar_entry w pub []) then [Sleep 2] else [])"
  unfolding scholar_entry_def
  using bib_field_quiet [unfolded quiet_def]
  by (simp add: actions_bind returns_def outcome_bind split: sum.splits)

text \<open>The body of the inner \<open>try\<close> runs to its end, the sleep included, exactly when
  the fill returns, \<open>filled.get('bib', {})\<close> and its \<open>.get('abstract', 'N/A')\<close> return
  (both values are dictionaries, so every other field can be read too) and the abstract
  can be cut by \<open>[:500]\<close>; it then has appended one dictionary.\<close>

lemma scholar_entry_returns_iff:
  "returns (scholar_entry w pub results) =
     (\<exists>filled bib abstract cut.
        fill w pub = Inr filled
        \<and> py_get filled ''bib'' (PDict []) = Inr bib
        \<and> py_get bib ''abstract'' (PStr ''N/A'') = Inr abstract
        \<and> py_slice_to 500 abstract = Inr cut)"
proof (cases "fill w pub")
  case (Inl e)
  then show ?thesis
    by (simp add: scholar_entry_def returns_def outcome_bind)
next
  case filled: (Inr filled)
  show ?thesis
  proof (cases "py_get filled ''bib'' (PDict [])")
    case (Inl e)
    with filled show ?thesis
      by (simp add: scholar_entry_def bib_field_def returns_def outcome_bind)
  next
    case bib: (Inr bib)
    then obtain fd where fd: "filled = PDict fd" by (cases filled) simp_all
    show ?thesis
    proof (cases "py_get bib ''abstract'' (PStr ''N/A'')")
      case (Inl e)
      then have "py_get bib key dflt = Inl e" for key dflt
        by (cases bib) simp_all
      with filled bib Inl show ?thesis
        by (simp add: scholar_entry_def bib_field_def returns_def outcome_bind)
    next
      case abstract: (Inr abstract)
      then obtain bd where bd: "bib = PDict bd" by (cases bib) simp_all
      from filled bib abstract show ?thesis
        unfolding fd bd
        by (cases "py_slice_to 500 abstract")
           (simp_all add: scholar_entry_def bib_field_def returns_def outcome_bind)
    qed
  qed
qed

lemma scholar_entry_appends:
  "ensures (\<lambda>rs. \<exists>entry. rs = results @ [entry]) (scholar_entry w pub results)"
  unfolding scholar_entry_def
  by (intro ensures_bind) simp

lemma scholar_step_actions:
  "actions (io_try (scholar_entry w pub results)
       (\<lambda>e. io_bind (io_do (LogWarning (''Error filling publication: '' @ message e)))
              (\<lambda>_. io_return results)))
   = FillPub pub # (if returns (scholar_entry w pub []) then [Sleep 2] else [])"
  by (simp add: actions_try actions_bind scholar_entry_actions split: sum.splits)

lemma scholar_step_returns:
  "returns (io_try (scholar_entry w pub results)
       (\<lambda>e. io_bind (io_do (LogWarning (''Error filling publication: '' @ message e)))
              (\<lambda>_. io_return results)))"
  by (rule returns_try) simp

lemma take_budget:
  "int i < mx \<Longrightarrow> take (nat (mx - int i)) (x # xs) = x # take (nat (mx - int (Suc i))) xs"
proof -
  assume "int i < mx"
  then have "nat (mx - int i) = Suc (nat (mx - int (Suc i)))" by simp
  then show ?thesis by simp
qed

lemma io_bind_lift_Inr: "io_bind (io_lift (Inr x)) f = f x"
  by (simp add: io_bind_def io_lift_def split: prod.splits)

lemma scholar_loop_actions:
  "actions (scholar_loop w mx i items results) =
     concat (map (\<lambda>pub. FillPub pub # (if returns (scholar_entry w pub []) then [Sleep 2] else []))
               (take (nat (mx - int i)) (yielded items)))"
proof (induction items arbitrary: i results)
  case Nil
  then show ?case by simp
next
  case (Cons nxt items)
  show ?case
  proof (cases nxt)
    case (Inl e)
    then show ?thesis by (simp add: actions_bind)
  next
    case (Inr pub)
    show ?thesis
    proof (cases "mx \<le> int i")
      case True
      with Inr show ?thesis by (simp add: actions_bind)
    next
      case False
      then have budget: "int i < mx" by simp
      let ?step = "io_try (scholar_entry w pub results)
           (\<lambda>e. io_bind (io_do (LogWarning (''Error filling publication: '' @ message e)))
                  (\<lambda>_. io_return results))"
      from scholar_step_returns [of w pub results] obtain results' where
        step: "outcome ?step = Inr results'"
        by (auto simp: returns_def split: sum.splits)
      from Inr budget have "scholar_loop w mx i (nxt # items) results
          = io_bind ?step (\<lambda>results. scholar_loop w mx (Suc i) items results)"
        by (simp add: io_bind_lift_Inr)
      then have "actions (scholar_loop w mx i (nxt # items) results)
          = actions ?step @ actions (scholar_loop w mx (Suc i) items results')"
        by (simp only: actions_bind step sum.case)
      also have "\<dots> = (FillPub pub # (if returns (scholar_entry w pub []) then [Sleep 2] else []))
          @ concat (map (\<lambda>pub. FillPub pub #
                          (if returns (scholar_entry w pub []) then [Sleep 2] else []))
                      (take (nat (mx - int (Suc i))) (yielded items)))"
        by (simp only: scholar_step_actions Cons.IH)
      also have "\<dots> = concat (map (\<lambda>pub. FillPub pub #
                          (if returns (scholar_entry w pub []) then [Sleep 2] else []))
                      (take (nat (mx - int i)) (yielded (nxt # items))))"
        unfolding Inr yielded.simps take_budget [OF budget] by simp
      finally show ?thesis .
    qed
  qed
qed

lemma scrape_google_scholar_actions:
  "actions (scrape_google_scholar w q mx) =
     SearchPubs q #
     (case search_pubs w q of
        Inl e \<Rightarrow> []
      | Inr items \<Rightarrow>
          concat (map (\<lambda>pub. FillPub pub #
                          (if returns (scholar_entry w pub []) then [Sleep 2] else []))
                    (take (nat mx) (yielded items))))"
  unfolding scrape_google_scholar_def
  using scholar_loop_actions [of w mx 0]
  by (simp add: actions_try actions_bind split: sum.splits)

text \<open>
  C5, as stated: no scraper delays between requests.  It fails for
  \<open>scrape_google_scholar\<close>, which calls \<open>time.sleep(2)\<close> after each publication it has
  filled (line 57, commented \<open>Rate limiting\<close>): with two publications found, it sleeps
  two seconds between the two fill requests, and again after the second.
\<close>

theorem no_delay_counterexample:
  "actions (scrape_google_scholar two_pubs_world ''LAM'' 8)
     = [SearchPubs ''LAM'', FillPub sample_pub, Sleep 2, FillPub other_pub, Sleep 2]"
  by (simp add: scrape_google_scholar_def scholar_entry_def bib_field_def two_pubs_world_def
      online_def offline_def sample_pub_def other_pub_def actions_try actions_bind
      outcome_bind outcome_try)

text \<open>
  C5, amended: for every input and every behaviour of the libraries, no scraper
  re-attempts a request that failed, and none but \<open>scrape_google_scholar\<close> ever
  sleeps.  In order, the requests and sleeps of
  \<^item> \<open>scrape_clean_text\<close>, \<open>scrape_drugbank_info\<close>, \<open>scrape_bioRxiv_preprints\<close> and
    \<open>scrape_orphanet\<close> are one request;
  \<^item> \<open>scrape_rare_diseases_info\<close> are the request for the disease page, followed by one
    request to the search API, a different address, exactly when the page came back with
    status 404;
  \<^item> \<open>scrape_company_pipeline\<close> are the search request, followed by one request to the
    link of the first result exactly when the search came back, a first result was found
    in it and its link is not empty;
  \<^item> \<open>scrape_google_scholar\<close> are one search, then for each of the first
    \<open>max_results\<close> publications the generator yields, one fill request, followed by a
    sleep of two seconds exactly when the publication's dictionary was built and
    appended: the fill returned, \<open>filled.get('bib', {})\<close> and its
    \<open>.get('abstract', 'N/A')\<close> returned, and the abstract could be cut by \<open>[:500]\<close>.
    A publication whose fill raised, or whose fields could not be read, gets no second
    request and no sleep.
  Every one of these calls returns.
\<close>

theorem requests_and_sleeps:
  "actions (scrape_clean_text w url) = [FetchUrl url]
   \<and> actions (scrape_drugbank_info w drug) = [HttpGet (drugbank_url drug) None 10]
   \<and> actions (scrape_bioRxiv_preprints w query max_results)
       = [HttpGet (biorxiv_url w query) (Some ua_headers) 10]
   \<and> actions (scrape_orphanet w disease)
       = [HttpGet (orphanet_url disease) (Some ua_headers) 15]
   \<and> actions (scrape_rare_diseases_info w disease)
       = HttpGet (gard_url disease) (Some ua_headers) 15 #
         (case requests_get w (gard_url disease) (Some ua_headers) 15 of
            Inl e \<Rightarrow> []
          | Inr response \<Rightarrow>
              if status_code response = 404
              then [HttpGet (gard_search_api disease) (Some ua_headers) 15] else [])
   \<and> gard_url disease \<noteq> gard_search_api disease
   \<and> actions (scrape_company_pipeline w company)
       = HttpGet (pipeline_search_url w company) (Some ua_headers) 10 #
         (case and_then (requests_get w (pipeline_search_url w company) (Some ua_headers) 10)
                 (\<lambda>response.
               and_then (beautiful_soup w (content response)) (\<lambda>soup.
               and_then (find_tag_class w soup ''a'' ''result__url'') (\<lambda>first_result.
               case first_result of
                 None \<Rightarrow> Inr []
               | Some first \<Rightarrow> attr_get w first ''href'' []))) of
            Inl e \<Rightarrow> []
          | Inr pipeline_url \<Rightarrow>
              if pipeline_url \<noteq> [] then [HttpGet pipeline_url (Some ua_headers) 10] else [])
   \<and> actions (scrape_google_scholar w query max_results)
       = SearchPubs query #
         (case search_pubs w query of
            Inl e \<Rightarrow> []
          | Inr items \<Rightarrow>
              concat (map (\<lambda>pub. FillPub pub #
                              (if returns (scholar_entry w pub []) then [Sleep 2] else []))
                        (take (nat max_results) (yielded items))))
   \<and> returns (scholar_entry w pub []) =
       (\<exists>filled bib abstract cut.
          fill w pub = Inr filled
          \<and> py_get filled ''bib'' (PDict []) = Inr bib
          \<and> py_get bib ''abstract'' (PStr ''N/A'') = Inr abstract
          \<and> py_slice_to 500 abstract = Inr cut)
   \<and> ensures (\<lambda>rs. \<exists>entry. rs = results @ [entry]) (scholar_entry w pub results)
   \<and> returns (scrape_clean_text w url)
   \<and> returns (scrape_drugbank_info w drug)
   \<and> returns (scrape_bioRxiv_preprints w query max_results)
   \<and> returns (scrape_orphanet w disease)
   \<and> returns (scrape_rare_diseases_info w disease)
   \<and> returns (scrape_company_pipeline w company)
   \<and> returns (scrape_google_scholar w query max_results)"
  by (intro conjI scrape_clean_text_actions scrape_drugbank_info_actions
      scrape_bioRxiv_preprints_actions scrape_orphanet_actions
      scrape_rare_diseases_info_actions gard_targets_differ scrape_company_pipeline_actions
      scrape_google_scholar_actions scholar_entry_returns_iff scholar_entry_appends
      scrape_clean_text_returns scrape_drugbank_info_returns
      scrape_bioRxiv_preprints_returns scrape_orphanet_returns
      scrape_rare_diseases_info_returns scrape_company_pipeline_returns
      scrape_google_scholar_returns)

text \<open>A failed fill is not attempted again and is not followed by a sleep; neither is a
  fill that returns a publication whose \<open>bib\<close> is \<open>None\<close>.\<close>

lemma failed_fill_example:
  "actions (scrape_google_scholar
       (two_pubs_world\<lparr>fill := (\<lambda>pub. if pub = sample_pub
                                        then Inl (Exception ''MaxTriesExceededException'')
                                        else Inr pub)\<rparr>) ''LAM'' 8)
     = [SearchPubs ''LAM'', FillPub sample_pub, FillPub other_pub, Sleep 2]"
  by (simp add: scrape_google_scholar_def scholar_entry_def bib_field_def two_pubs_world_def
      online_def offline_def sample_pub_def other_pub_def actions_try actions_bind
      outcome_bind outcome_try)

lemma unreadable_fill_example:
  "actions (scrape_google_scholar
       (online\<lparr>fill := (\<lambda>pub. Inr (PDict [(''bib'', PNone)]))\<rparr>) ''LAM'' 8)
     = [SearchPubs ''LAM'', FillPub sample_pub]"
  by (simp add: scrape_google_scholar_def scholar_entry_def bib_field_def
      online_def offline_def sample_pub_def actions_try actions_bind
      outcome_bind outcome_try)

end
